theory Spec2Isabelle
  imports Complex_Main "HOL-Library.Multiset"
begin

section \<open>The NEXUS APEX server (src/server.js): values and runtime helpers\<close>

text \<open>
  A request body is what \<open>express.json\<close> hands to a handler: an object of JSON values.
  A JavaScript number is modelled by the real number it denotes; a field that is absent
  from the body reads as \<open>undefined\<close>, here \<open>None\<close>.
\<close>

datatype json =
    JNull
  | JBool bool
  | JNum real
  | JStr string
  | JArr "json list"
  | JObj "(string \<times> json) list"

type_synonym body = "string \<Rightarrow> json option"

text \<open>JavaScript's truthiness, as \<open>!x\<close> and \<open>x || y\<close> use it.\<close>

fun truthy :: "json option \<Rightarrow> bool" where
  "truthy None = False"
| "truthy (Some JNull) = False"
| "truthy (Some (JBool b)) = b"
| "truthy (Some (JNum x)) = (x \<noteq> 0)"
| "truthy (Some (JStr s)) = (s \<noteq> [])"
| "truthy (Some (JArr xs)) = True"
| "truthy (Some (JObj kvs)) = True"

text \<open>\<open>x || d\<close>: the left operand when it is truthy, the right one otherwise.\<close>

definition js_or :: "json option \<Rightarrow> json \<Rightarrow> json" where
  "js_or x d = (case x of None \<Rightarrow> d | Some v \<Rightarrow> if truthy (Some v) then v else d)"

text \<open>A destructuring default \<open>{ x = d }\<close>: it applies only when the field is undefined.\<close>

definition dflt :: "json option \<Rightarrow> json \<Rightarrow> json" where
  "dflt x d = (case x of None \<Rightarrow> d | Some v \<Rightarrow> v)"

text \<open>\<open>Math.round\<close> rounds to the nearest integer, a tie towards plus infinity.\<close>

definition Math_round :: "real \<Rightarrow> int" where
  "Math_round x = \<lfloor>x + 1 / 2\<rfloor>"

text \<open>
  Arithmetic on numbers is IEEE 754 binary64: the exact result is rounded to the nearest
  double, a tie to the even significand. \<open>expo x\<close> is the binary exponent of \<open>x\<close>,
  \<open>rne\<close> rounds to the nearest integer with ties to even, and \<open>fl x\<close> is the double
  nearest to \<open>x\<close>: a multiple of \<open>2 powi (expo x - 52)\<close>, or of \<open>2 powi (- 1074)\<close> in the
  subnormal range. Overflow to infinity (magnitudes from \<open>2 powi 1024\<close> on) is not modelled;
  differences of timestamps and what the handlers compute from them stay far below.
\<close>

definition expo :: "real \<Rightarrow> int" where
  "expo x = \<lfloor>log 2 \<bar>x\<bar>\<rfloor>"

definition rne :: "real \<Rightarrow> int" where
  "rne y =
     (let f = \<lfloor>y\<rfloor>
      in if y - real_of_int f < 1 / 2 then f
         else if 1 / 2 < y - real_of_int f then f + 1
         else if even f then f else f + 1)"

definition fl :: "real \<Rightarrow> real" where
  "fl x =
     (if x = 0 then 0
      else (let u = 2 powi (max (expo x) (- 1022) - 52) in real_of_int (rne (x / u)) * u))"

text \<open>
  \<open>parseFloat(x.toFixed(2))\<close>: \<open>toFixed\<close> works on the exact value of the double \<open>x\<close>. It
  takes the sign off, picks the integer \<open>n\<close> with \<open>n / 100\<close> nearest to the magnitude (the
  larger one at a tie) and prints \<open>n / 100\<close> with two decimals; \<open>parseFloat\<close> reads that
  text back and the response prints it again, so the model keeps the two-decimal number.
\<close>

definition toFixed2 :: "real \<Rightarrow> real" where
  "toFixed2 x =
     (if x < 0 then - (real_of_int \<lfloor>(- x) * 100 + 1 / 2\<rfloor> / 100)
      else real_of_int \<lfloor>x * 100 + 1 / 2\<rfloor> / 100)"

text \<open>
  The answer of a handler: \<open>res.json(v)\<close> is \<open>OK v\<close> (status 200),
  \<open>res.status(c).json({ error: m })\<close> is \<open>Fail c m\<close>.
\<close>

datatype 'a response = OK 'a | Fail nat string

text \<open>
  What a rejected \<open>dbRun\<close> or a throwing expression leaves in \<open>error.message\<close>.
  Every table declares \<open>id TEXT PRIMARY KEY\<close>, so an insert under an id that the table
  already holds is rejected; the constraint error names the table.
\<close>

datatype error = SQLITE_CONSTRAINT string | TypeError

fun message :: "error \<Rightarrow> string" where
  "message (SQLITE_CONSTRAINT t) = ''SQLITE_CONSTRAINT: UNIQUE constraint failed: '' @ t @ ''.id''"
| "message TypeError = ''characterName.toLowerCase is not a function''"

text \<open>Strings are byte lists; the check mark U+2705 of the messages is its UTF-8 bytes.\<close>

definition check_mark :: string where
  "check_mark = [char_of (0xE2 :: nat), char_of (0x9C :: nat), char_of (0x85 :: nat)]"

text \<open>\<open>toLowerCase\<close> on the ASCII letters; other bytes are left as they are.\<close>

definition lower_char :: "char \<Rightarrow> char" where
  "lower_char c =
     (let n = (of_char c :: nat) in if 65 \<le> n \<and> n \<le> 90 then char_of (n + 32) else c)"

definition toLowerCase :: "string \<Rightarrow> string" where
  "toLowerCase s = map lower_char s"

text \<open>An integer inside a template literal: its decimal digits.\<close>

definition digit :: "nat \<Rightarrow> char" where
  "digit n = ''0123456789'' ! n"

fun show_nat :: "nat \<Rightarrow> string" where
  "show_nat n =
     (if n < 10 then [digit n]
      else show_nat (n div 10) @ [digit (n mod 10)])"

declare show_nat.simps [simp del]

definition show_int :: "int \<Rightarrow> string" where
  "show_int i = (if i < 0 then CHR ''-'' # show_nat (nat (- i)) else show_nat (nat i))"

section \<open>The store: the tables of \<open>initializeDatabase\<close>\<close>

text \<open>
  One record per table, one field per column, in the schema's order; a table is the list
  of its rows in insertion order. The six TEXT columns of \<open>json_configs\<close>, which a row's
  \<open>configJson\<close> is compared with, hold what SQLite stores for the bound value; the other
  columns are kept as the value the handler binds to them.
  \<open>createdAt\<close> is filled by SQLite's \<open>datetime("now")\<close>; the model keeps it as the
  epoch milliseconds that \<open>new Date(row.createdAt)\<close> reads back, and a creating handler
  receives that value as its clock argument.
\<close>

text \<open>
  A column declared TEXT. The sqlite3 driver binds a string as text, a number that is an
  integer of 32 bits as an integer and any other number as a float, a boolean as the
  integer 1 or 0, \<open>null\<close> as NULL and an array or object as the text '[object Object]';
  the column's TEXT affinity then stores an integer or a float as the text SQLite prints
  for it. \<open>RealText x\<close> is the text printed for the float \<open>x\<close>; its digits are not
  modelled.
\<close>

datatype sql_text = Null | Text string | RealText real

fun text_affinity :: "json \<Rightarrow> sql_text" where
  "text_affinity JNull = Null"
| "text_affinity (JBool b) = Text (if b then ''1'' else ''0'')"
| "text_affinity (JNum x) =
     (if real_of_int \<lfloor>x\<rfloor> = x \<and> - 2147483648 \<le> x \<and> x \<le> 2147483647
      then Text (show_int \<lfloor>x\<rfloor>) else RealText x)"
| "text_affinity (JStr s) = Text s"
| "text_affinity (JArr xs) = Text ''[object Object]''"
| "text_affinity (JObj kvs) = Text ''[object Object]''"

record user_row =
  u_id :: string
  u_email :: string
  u_createdAt :: int

record lora_training =
  lt_id :: string
  lt_characterName :: json
  lt_status :: string
  lt_progress :: real
  lt_strength :: json
  lt_epochs :: json
  lt_createdAt :: int

record json_config =
  jc_id :: string
  jc_character :: sql_text
  jc_environment :: sql_text
  jc_lighting :: sql_text
  jc_camera :: sql_text
  jc_style :: sql_text
  jc_negativePrompt :: sql_text
  jc_configJson :: string
  jc_createdAt :: int

record image_score =
  is_id :: string
  is_imageUrl :: json
  is_drama :: int
  is_saliency :: int
  is_emotion :: int
  is_depth :: int
  is_signature :: int
  is_total :: int
  is_feedback :: string
  is_createdAt :: int

record anatomy_validation =
  av_id :: string
  av_imageUrl :: json
  av_handsScore :: int
  av_faceScore :: int
  av_bodyScore :: int
  av_overallScore :: int
  av_issues :: string
  av_createdAt :: int

record remotion_deployment =
  rd_id :: string
  rd_configId :: json
  rd_status :: string
  rd_progress :: real
  rd_vercelUrl :: "string option"
  rd_videoPath :: "string option"
  rd_duration :: json
  rd_effects :: json
  rd_createdAt :: int

record db =
  users :: "user_row list"
  lora_trainings :: "lora_training list"
  json_configs :: "json_config list"
  image_scores :: "image_score list"
  anatomy_validations :: "anatomy_validation list"
  remotion_deployments :: "remotion_deployment list"

definition empty_db :: db where
  "empty_db = \<lparr>users = [], lora_trainings = [], json_configs = [], image_scores = [],
     anatomy_validations = [], remotion_deployments = []\<rparr>"

text \<open>\<open>dbRun('INSERT INTO t ...')\<close>: the new store, or the primary-key error.\<close>

definition insert_lora :: "lora_training \<Rightarrow> db \<Rightarrow> error + db" where
  "insert_lora r d =
     (if lt_id r \<in> set (map lt_id (lora_trainings d)) then Inl (SQLITE_CONSTRAINT ''lora_trainings'')
      else Inr (d\<lparr>lora_trainings := lora_trainings d @ [r]\<rparr>))"

definition insert_config :: "json_config \<Rightarrow> db \<Rightarrow> error + db" where
  "insert_config r d =
     (if jc_id r \<in> set (map jc_id (json_configs d)) then Inl (SQLITE_CONSTRAINT ''json_configs'')
      else Inr (d\<lparr>json_configs := json_configs d @ [r]\<rparr>))"

definition insert_score :: "image_score \<Rightarrow> db \<Rightarrow> error + db" where
  "insert_score r d =
     (if is_id r \<in> set (map is_id (image_scores d)) then Inl (SQLITE_CONSTRAINT ''image_scores'')
      else Inr (d\<lparr>image_scores := image_scores d @ [r]\<rparr>))"

definition insert_validation :: "anatomy_validation \<Rightarrow> db \<Rightarrow> error + db" where
  "insert_validation r d =
     (if av_id r \<in> set (map av_id (anatomy_validations d))
      then Inl (SQLITE_CONSTRAINT ''anatomy_validations'')
      else Inr (d\<lparr>anatomy_validations := anatomy_validations d @ [r]\<rparr>))"

definition insert_deployment :: "remotion_deployment \<Rightarrow> db \<Rightarrow> error + db" where
  "insert_deployment r d =
     (if rd_id r \<in> set (map rd_id (remotion_deployments d))
      then Inl (SQLITE_CONSTRAINT ''remotion_deployments'')
      else Inr (d\<lparr>remotion_deployments := remotion_deployments d @ [r]\<rparr>))"

text \<open>\<open>SELECT COUNT(*) FROM t\<close> for each table, in the schema's order.\<close>

definition counts :: "db \<Rightarrow> nat list" where
  "counts d = [length (users d), length (lora_trainings d), length (json_configs d),
     length (image_scores d), length (anatomy_validations d), length (remotion_deployments d)]"

section \<open>The handlers\<close>

text \<open>
  A handler takes the request body, what the environment supplies in the order the code
  asks for it (the identifiers of \<open>uuidv4()\<close>, the draws of \<open>Math.random()\<close>, the
  clock) and the store; it returns the response and the store after the request.
\<close>

subsection \<open>POST /api/train-lora\<close>

record train_response =
  tr_jobId :: string
  tr_status :: string
  tr_progress :: real
  tr_characterName :: json
  tr_baseModel :: json
  tr_strength :: json
  tr_epochs :: json
  tr_modelPath :: string
  tr_eta :: string
  tr_message :: string

text \<open>
  \<open>characterName.toLowerCase()\<close> is evaluated after the insert: a truthy name that is
  not a string throws there, which the \<open>catch\<close> answers with 500.
\<close>

definition train_lora :: "body \<Rightarrow> string \<Rightarrow> int \<Rightarrow> db \<Rightarrow> train_response response \<times> db" where
  "train_lora b jobId now d =
     (let baseModel = dflt (b ''baseModel'') (JStr ''FLUX.1-Pro-Ultra'');
          strength = dflt (b ''strength'') (JNum (85 / 100));
          epochs = dflt (b ''epochs'') (JNum 100)
      in case b ''characterName'' of
           None \<Rightarrow> (Fail 400 ''characterName is required'', d)
         | Some characterName \<Rightarrow>
             if \<not> truthy (Some characterName) then (Fail 400 ''characterName is required'', d)
             else
               (case insert_lora \<lparr>lt_id = jobId, lt_characterName = characterName,
                        lt_status = ''training'', lt_progress = 0, lt_strength = strength,
                        lt_epochs = epochs, lt_createdAt = now\<rparr> d of
                  Inl e \<Rightarrow> (Fail 500 (message e), d)
                | Inr d' \<Rightarrow>
                    (case characterName of
                       JStr name \<Rightarrow>
                         (OK \<lparr>tr_jobId = jobId, tr_status = ''training'', tr_progress = 0,
                              tr_characterName = characterName, tr_baseModel = baseModel,
                              tr_strength = strength, tr_epochs = epochs,
                              tr_modelPath = ''/models/'' @ toLowerCase name @ ''_lora_v1.safetensors'',
                              tr_eta = ''2-3 minutes'',
                              tr_message = check_mark @ '' LoRA training started for '' @ name\<rparr>, d')
                     | _ \<Rightarrow> (Fail 500 (message TypeError), d'))))"

subsection \<open>GET /api/train-lora/:jobId\<close>

text \<open>
  \<open>dbGet('SELECT * FROM lora_trainings WHERE id = ?')\<close>: the row, or undefined.
  \<open>now\<close> is the time value of \<open>new Date()\<close> and the row's \<open>createdAt\<close> the time value of
  \<open>new Date(training.createdAt)\<close>, both whole milliseconds; the subtraction, the division
  and the multiplication are each rounded to a double.
\<close>

definition get_training :: "string \<Rightarrow> int \<Rightarrow> db \<Rightarrow> lora_training response" where
  "get_training jobId now d =
     (case find (\<lambda>r. lt_id r = jobId) (lora_trainings d) of
        None \<Rightarrow> Fail 404 ''Training not found''
      | Some training \<Rightarrow>
          (let elapsed = fl (real_of_int now - real_of_int (lt_createdAt training));
               progress = min 100 (fl (fl (elapsed / 120000) * 100))
           in OK (training\<lparr>lt_progress := toFixed2 progress\<rparr>)))"

subsection \<open>POST /api/generate-json\<close>

record config_response =
  cr_id :: string
  cr_jsonConfig :: json
  cr_createdAt :: string
  cr_message :: string

text \<open>
  \<open>JSON.stringify\<close> belongs to the runtime: the handler takes it as \<open>stringify\<close>.
  \<open>isoNow\<close> is \<open>new Date().toISOString()\<close>. Past the check the three required
  fields are truthy, hence defined: \<open>dflt\<close> only reads them.
\<close>

definition generate_json ::
  "(json \<Rightarrow> string) \<Rightarrow> body \<Rightarrow> string \<Rightarrow> int \<Rightarrow> string \<Rightarrow> db \<Rightarrow> config_response response \<times> db" where
  "generate_json stringify b configId now isoNow d =
     (if \<not> truthy (b ''character'') \<or> \<not> truthy (b ''environment'') \<or> \<not> truthy (b ''lighting'')
      then (Fail 400 ''character, environment, and lighting are required'', d)
      else
        (let character = dflt (b ''character'') JNull;
             environment = dflt (b ''environment'') JNull;
             lighting = dflt (b ''lighting'') JNull;
             jsonConfig = JObj
               [(''character'', character), (''environment'', environment), (''lighting'', lighting),
                (''camera'', js_or (b ''camera'') (JStr ''Standard'')),
                (''style'', js_or (b ''style'') (JStr ''Cinematic'')),
                (''negativePrompt'', js_or (b ''negativePrompt'') (JStr ''deformed, blurry, low quality''))]
         in case insert_config \<lparr>jc_id = configId, jc_character = text_affinity character,
                   jc_environment = text_affinity environment,
                   jc_lighting = text_affinity lighting,
                   jc_camera = text_affinity (js_or (b ''camera'') (JStr ''Standard'')),
                   jc_style = text_affinity (js_or (b ''style'') (JStr ''Cinematic'')),
                   jc_negativePrompt = text_affinity
                     (js_or (b ''negativePrompt'') (JStr ''deformed, blurry, low quality'')),
                   jc_configJson = stringify jsonConfig, jc_createdAt = now\<rparr> d of
              Inl e \<Rightarrow> (Fail 500 (message e), d)
            | Inr d' \<Rightarrow>
                (OK \<lparr>cr_id = configId, cr_jsonConfig = jsonConfig, cr_createdAt = isoNow,
                     cr_message = check_mark @ '' JSON Config generated successfully''\<rparr>, d')))"

subsection \<open>POST /api/score-image\<close>

record score_response =
  sr_id :: string
  sr_imageUrl :: json
  sr_drama :: int
  sr_saliency :: int
  sr_emotion :: int
  sr_depth :: int
  sr_signature :: int
  sr_total :: int
  sr_quality :: string
  sr_feedback :: string
  sr_suggestions :: "string list"
  sr_message :: string

text \<open>
  The banding of the total: the handler's \<open>if\<close> chain, giving quality and feedback.
  Every branch assigns both, so the initial 'Poor' and '' are never seen.
\<close>

definition band :: "int \<Rightarrow> string \<times> string" where
  "band total' =
     (if total' \<ge> 85 then (''Excellent'', ''Masterpiece level! All dimensions are outstanding.'')
      else if total' \<ge> 75 then (''Good'', ''Consider: enhance saliency, add depth, improve drama'')
      else if total' \<ge> 60 then (''Fair'', ''Work on composition, lighting, and focus'')
      else (''Weak'', ''Major improvements needed in multiple areas''))"

text \<open>
  \<open>r1\<close> to \<open>r5\<close> are the five results of \<open>Math.random()\<close>, in the order of the calls.
  The arithmetic on a draw is kept exact: rounding it to doubles is monotone and leaves
  the integer bounds of each dimension and of the total in place.
\<close>

definition score_image ::
  "body \<Rightarrow> string \<Rightarrow> real \<Rightarrow> real \<Rightarrow> real \<Rightarrow> real \<Rightarrow> real \<Rightarrow> int \<Rightarrow> db
     \<Rightarrow> score_response response \<times> db" where
  "score_image b scoreId r1 r2 r3 r4 r5 now d =
     (case b ''imageUrl'' of
        None \<Rightarrow> (Fail 400 ''imageUrl is required'', d)
      | Some imageUrl \<Rightarrow>
          if \<not> truthy (Some imageUrl) then (Fail 400 ''imageUrl is required'', d)
          else
            (let drama = Math_round (r1 * 30 + 60);
                 saliency = Math_round (r2 * 30 + 65);
                 emotion = Math_round (r3 * 30 + 60);
                 depth = Math_round (r4 * 30 + 70);
                 signature = Math_round (r5 * 30 + 65);
                 total' = Math_round (real_of_int (drama + saliency + emotion + depth + signature) / 5);
                 quality = fst (band total');
                 feedback = snd (band total')
             in case insert_score \<lparr>is_id = scoreId, is_imageUrl = imageUrl, is_drama = drama,
                       is_saliency = saliency, is_emotion = emotion, is_depth = depth,
                       is_signature = signature, is_total = total', is_feedback = feedback,
                       is_createdAt = now\<rparr> d of
                  Inl e \<Rightarrow> (Fail 500 (message e), d)
                | Inr d' \<Rightarrow>
                    (OK \<lparr>sr_id = scoreId, sr_imageUrl = imageUrl, sr_drama = drama,
                         sr_saliency = saliency, sr_emotion = emotion, sr_depth = depth,
                         sr_signature = signature, sr_total = total', sr_quality = quality,
                         sr_feedback = feedback,
                         sr_suggestions = [''Increase contrast for more drama'',
                           ''Add focal point for better saliency'', ''Layer composition for depth''],
                         sr_message = check_mark @ '' Image scored: '' @ show_int total'
                           @ ''/100 ('' @ quality @ '')''\<rparr>, d')))"

subsection \<open>GET /api/scores\<close>

record scores_response =
  sc_scores :: "image_score list"
  sc_total :: nat

text \<open>
  \<open>ORDER BY createdAt DESC LIMIT 10\<close>: a sort on the column, newest first, cut after ten
  rows. SQL leaves the order of rows with equal \<open>createdAt\<close> open; the model keeps them in
  insertion order.
\<close>

definition recent_scores :: "db \<Rightarrow> image_score list" where
  "recent_scores d = take 10 (sort_key (\<lambda>r. - is_createdAt r) (image_scores d))"

definition get_scores :: "db \<Rightarrow> scores_response response" where
  "get_scores d = (let scores = recent_scores d in OK \<lparr>sc_scores = scores, sc_total = length scores\<rparr>)"

subsection \<open>POST /api/validate-anatomy\<close>

record hands_detail =
  h_detected :: bool
  h_quality :: int
  h_issues :: "string list"
  h_status :: string

record face_detail =
  f_detected :: bool
  f_symmetry :: int
  f_proportions :: string
  f_status :: string

record body_detail =
  b_detected :: bool
  b_posture :: string
  b_proportions :: string
  b_status :: string

record anatomy_response =
  ar_id :: string
  ar_imageUrl :: json
  ar_hands :: hands_detail
  ar_face :: face_detail
  ar_body :: body_detail
  ar_overallScore :: int
  ar_verdict :: string
  ar_message :: string

text \<open>
  The aggregate \<open>issues\<close> list goes to the row only, serialised by \<open>JSON.stringify\<close>;
  the response carries the per-region annotations.
\<close>

definition anatomy_issues :: "int \<Rightarrow> string list" where
  "anatomy_issues overallScore =
     (if overallScore < 85 then [''Consider hand pose'', ''Adjust shoulder width''] else [])"

definition validate_anatomy ::
  "(json \<Rightarrow> string) \<Rightarrow> body \<Rightarrow> string \<Rightarrow> real \<Rightarrow> real \<Rightarrow> real \<Rightarrow> int \<Rightarrow> db
     \<Rightarrow> anatomy_response response \<times> db" where
  "validate_anatomy stringify b validationId r1 r2 r3 now d =
     (case b ''imageUrl'' of
        None \<Rightarrow> (Fail 400 ''imageUrl is required'', d)
      | Some imageUrl \<Rightarrow>
          if \<not> truthy (Some imageUrl) then (Fail 400 ''imageUrl is required'', d)
          else
            (let handsScore = Math_round (r1 * 10 + 85);
                 faceScore = Math_round (r2 * 10 + 88);
                 bodyScore = Math_round (r3 * 10 + 82);
                 overallScore = Math_round (real_of_int (handsScore + faceScore + bodyScore) / 3);
                 verdict = (if overallScore \<ge> 90 then ''Excellent anatomy! '' @ check_mark
                            else ''Good anatomy. Minor adjustments possible.'');
                 issues = anatomy_issues overallScore
             in case insert_validation \<lparr>av_id = validationId, av_imageUrl = imageUrl,
                       av_handsScore = handsScore, av_faceScore = faceScore,
                       av_bodyScore = bodyScore, av_overallScore = overallScore,
                       av_issues = stringify (JArr (map JStr issues)), av_createdAt = now\<rparr> d of
                  Inl e \<Rightarrow> (Fail 500 (message e), d)
                | Inr d' \<Rightarrow>
                    (OK \<lparr>ar_id = validationId, ar_imageUrl = imageUrl,
                         ar_hands = \<lparr>h_detected = True, h_quality = handsScore,
                           h_issues = (if handsScore < 90 then [''Finger positioning''] else []),
                           h_status = (if handsScore \<ge> 90 then ''Perfect'' else ''Good'')\<rparr>,
                         ar_face = \<lparr>f_detected = True, f_symmetry = faceScore,
                           f_proportions = ''Correct'',
                           f_status = (if faceScore \<ge> 90 then ''Symmetric'' else ''Acceptable'')\<rparr>,
                         ar_body = \<lparr>b_detected = True, b_posture = ''Natural'',
                           b_proportions = ''Proportional'',
                           b_status = (if bodyScore \<ge> 90 then ''Perfect'' else ''Good'')\<rparr>,
                         ar_overallScore = overallScore, ar_verdict = verdict,
                         ar_message = check_mark @ '' Validation complete: '' @ show_int overallScore
                           @ ''/100''\<rparr>, d')))"

subsection \<open>POST /api/deploy-remotion\<close>

record deploy_response =
  dr_jobId :: string
  dr_status :: string
  dr_progress :: real
  dr_duration :: json
  dr_effects :: json
  dr_vercelUrl :: string
  dr_videoPath :: string
  dr_eta :: string
  dr_message :: string

text \<open>\<open>jsonConfig?.id\<close>: the \<open>id\<close> property of an object, undefined for anything else.\<close>

fun optional_id :: "json option \<Rightarrow> json option" where
  "optional_id (Some (JObj kvs)) = map_of kvs ''id''"
| "optional_id _ = None"

text \<open>
  \<open>duration\<close> and \<open>effects\<close> are destructured with the defaults 15 and 'None'; the
  check of \<open>duration\<close> comes after the default has been applied. \<open>uuid2\<close> is the second
  \<open>uuidv4()\<close>, used when \<open>jsonConfig?.id\<close> is falsy. The insert names neither
  \<open>vercelUrl\<close> nor \<open>videoPath\<close>: both columns stay NULL.
\<close>

definition deploy_remotion ::
  "body \<Rightarrow> string \<Rightarrow> string \<Rightarrow> int \<Rightarrow> db \<Rightarrow> deploy_response response \<times> db" where
  "deploy_remotion b jobId uuid2 now d =
     (let jsonConfig = b ''jsonConfig'';
          duration = dflt (b ''duration'') (JNum 15);
          effects = dflt (b ''effects'') (JStr ''None'')
      in if \<not> truthy (Some duration) then (Fail 400 ''duration is required'', d)
         else
           (let configId = js_or (optional_id jsonConfig) (JStr uuid2)
            in case insert_deployment \<lparr>rd_id = jobId, rd_configId = configId,
                      rd_status = ''deploying'', rd_progress = 0, rd_vercelUrl = None,
                      rd_videoPath = None, rd_duration = duration, rd_effects = effects,
                      rd_createdAt = now\<rparr> d of
                 Inl e \<Rightarrow> (Fail 500 (message e), d)
               | Inr d' \<Rightarrow>
                   (OK \<lparr>dr_jobId = jobId, dr_status = ''deploying'', dr_progress = 0,
                        dr_duration = duration, dr_effects = effects,
                        dr_vercelUrl = ''https://nexus-apex-video-'' @ take 8 jobId @ ''.vercel.app'',
                        dr_videoPath = ''/videos/output_'' @ jobId @ ''.mp4'',
                        dr_eta = ''3-5 minutes'',
                        dr_message = check_mark @ '' Remotion video deployment started''\<rparr>, d')))"

subsection \<open>GET /api/deploy-remotion/:jobId\<close>

definition get_deployment :: "string \<Rightarrow> int \<Rightarrow> db \<Rightarrow> remotion_deployment response" where
  "get_deployment jobId now d =
     (case find (\<lambda>r. rd_id r = jobId) (remotion_deployments d) of
        None \<Rightarrow> Fail 404 ''Deployment not found''
      | Some deployment \<Rightarrow>
          (let elapsed = fl (real_of_int now - real_of_int (rd_createdAt deployment));
               progress = min 100 (fl (fl (elapsed / 180000) * 100))
           in OK (deployment\<lparr>rd_progress := toFixed2 progress\<rparr>)))"

subsection \<open>GET /api/stats\<close>

record stats_response =
  loraTrainings :: nat
  jsonConfigs :: nat
  imageScores :: nat
  remotionDeployments :: nat

text \<open>Four \<open>SELECT COUNT(*)\<close> queries; \<open>count || 0\<close> is the count itself.\<close>

definition stats :: "db \<Rightarrow> stats_response response" where
  "stats d =
     OK \<lparr>loraTrainings = length (lora_trainings d), jsonConfigs = length (json_configs d),
         imageScores = length (image_scores d),
         remotionDeployments = length (remotion_deployments d)\<rparr>"

section \<open>Reference formulas and example data\<close>

text \<open>
  The expression both poll handlers evaluate, with \<open>D\<close> the handler's constant
  (120000 for a training, 180000 for a deployment): \<open>Math.min(100, (elapsed / D) * 100)\<close>
  in double arithmetic, then \<open>parseFloat(progress.toFixed(2))\<close>.
\<close>

definition estimate :: "int \<Rightarrow> int \<Rightarrow> int \<Rightarrow> real" where
  "estimate now T D =
     toFixed2 (min 100 (fl (fl (fl (real_of_int now - real_of_int T) / real_of_int D) * 100)))"

text \<open>
  The progress estimator as the specification words it (4.2):
  \<open>clamp(0, 100, (elapsed / expectedDurationMs) * 100)\<close>, rounded to 2 decimal digits, in the
  same arithmetic.
\<close>

definition clamp :: "real \<Rightarrow> real \<Rightarrow> real \<Rightarrow> real" where
  "clamp lo hi x = max lo (min hi x)"

definition progress_spec :: "int \<Rightarrow> int \<Rightarrow> int \<Rightarrow> real" where
  "progress_spec now T D =
     toFixed2 (clamp 0 100 (fl (fl (fl (real_of_int now - real_of_int T) / real_of_int D) * 100)))"

text \<open>A store with one training and one deployment, both created at 120000 ms.\<close>

definition training1 :: lora_training where
  "training1 = \<lparr>lt_id = ''job-1'', lt_characterName = JStr ''Ada'', lt_status = ''training'',
     lt_progress = 0, lt_strength = JNum (85 / 100), lt_epochs = JNum 100,
     lt_createdAt = 120000\<rparr>"

definition deployment1 :: remotion_deployment where
  "deployment1 = \<lparr>rd_id = ''job-2'', rd_configId = JStr ''cfg-1'', rd_status = ''deploying'',
     rd_progress = 0, rd_vercelUrl = None, rd_videoPath = None, rd_duration = JNum 15,
     rd_effects = JStr ''None'', rd_createdAt = 120000\<rparr>"

definition jobs_db :: db where
  "jobs_db = empty_db\<lparr>lora_trainings := [training1], remotion_deployments := [deployment1]\<rparr>"

text \<open>A scoring request, and what the handler answers when every draw is 1/2.\<close>

definition image_body :: body where
  "image_body = [''imageUrl'' \<mapsto> JStr ''a.png'']"

definition score_row1 :: image_score where
  "score_row1 = \<lparr>is_id = ''score-1'', is_imageUrl = JStr ''a.png'', is_drama = 75,
     is_saliency = 80, is_emotion = 75, is_depth = 85, is_signature = 80, is_total = 79,
     is_feedback = ''Consider: enhance saliency, add depth, improve drama'',
     is_createdAt = 1000\<rparr>"

definition score_response1 :: score_response where
  "score_response1 = \<lparr>sr_id = ''score-1'', sr_imageUrl = JStr ''a.png'', sr_drama = 75,
     sr_saliency = 80, sr_emotion = 75, sr_depth = 85, sr_signature = 80, sr_total = 79,
     sr_quality = ''Good'',
     sr_feedback = ''Consider: enhance saliency, add depth, improve drama'',
     sr_suggestions = [''Increase contrast for more drama'',
       ''Add focal point for better saliency'', ''Layer composition for depth''],
     sr_message = check_mark @ '' Image scored: 79/100 (Good)''\<rparr>"

text \<open>
  A serialiser for the examples, standing for \<open>JSON.stringify\<close> on their values: strings
  free of escapes, arrays, objects, and numbers by their integer part.
\<close>

definition quote :: "string \<Rightarrow> string" where
  "quote s = ''\"'' @ s @ ''\"''"

fun commas :: "string list \<Rightarrow> string" where
  "commas [] = []"
| "commas [x] = x"
| "commas (x # y # zs) = x @ '','' @ commas (y # zs)"

fun sample_stringify :: "json \<Rightarrow> string" where
  "sample_stringify JNull = ''null''"
| "sample_stringify (JBool b) = (if b then ''true'' else ''false'')"
| "sample_stringify (JNum x) = show_int \<lfloor>x\<rfloor>"
| "sample_stringify (JStr s) = quote s"
| "sample_stringify (JArr xs) = ''['' @ commas (map sample_stringify xs) @ '']''"
| "sample_stringify (JObj kvs) =
     ''{'' @ commas (map (\<lambda>kv. quote (fst kv) @ '':'' @ sample_stringify (snd kv)) kvs) @ ''}''"

text \<open>A validation request answered with the draws 1/2.\<close>

definition validation_row1 :: anatomy_validation where
  "validation_row1 = \<lparr>av_id = ''val-1'', av_imageUrl = JStr ''a.png'', av_handsScore = 90,
     av_faceScore = 93, av_bodyScore = 87, av_overallScore = 90, av_issues = ''[]'',
     av_createdAt = 1000\<rparr>"

definition anatomy_response1 :: anatomy_response where
  "anatomy_response1 = \<lparr>ar_id = ''val-1'', ar_imageUrl = JStr ''a.png'',
     ar_hands = \<lparr>h_detected = True, h_quality = 90, h_issues = [], h_status = ''Perfect''\<rparr>,
     ar_face = \<lparr>f_detected = True, f_symmetry = 93, f_proportions = ''Correct'',
       f_status = ''Symmetric''\<rparr>,
     ar_body = \<lparr>b_detected = True, b_posture = ''Natural'', b_proportions = ''Proportional'',
       b_status = ''Good''\<rparr>,
     ar_overallScore = 90, ar_verdict = ''Excellent anatomy! '' @ check_mark,
     ar_message = check_mark @ '' Validation complete: 90/100''\<rparr>"

text \<open>The same validation request answered with the draws 0.\<close>

definition validation_row0 :: anatomy_validation where
  "validation_row0 = \<lparr>av_id = ''val-1'', av_imageUrl = JStr ''a.png'', av_handsScore = 85,
     av_faceScore = 88, av_bodyScore = 82, av_overallScore = 85, av_issues = ''[]'',
     av_createdAt = 1000\<rparr>"

definition anatomy_response0 :: anatomy_response where
  "anatomy_response0 = \<lparr>ar_id = ''val-1'', ar_imageUrl = JStr ''a.png'',
     ar_hands = \<lparr>h_detected = True, h_quality = 85, h_issues = [''Finger positioning''],
       h_status = ''Good''\<rparr>,
     ar_face = \<lparr>f_detected = True, f_symmetry = 88, f_proportions = ''Correct'',
       f_status = ''Acceptable''\<rparr>,
     ar_body = \<lparr>b_detected = True, b_posture = ''Natural'', b_proportions = ''Proportional'',
       b_status = ''Good''\<rparr>,
     ar_overallScore = 85, ar_verdict = ''Good anatomy. Minor adjustments possible.'',
     ar_message = check_mark @ '' Validation complete: 85/100''\<rparr>"

text \<open>A deployment request with an empty body, as answered on the empty store.\<close>

definition deployment_row2 :: remotion_deployment where
  "deployment_row2 = \<lparr>rd_id = ''0123456789abcdef'', rd_configId = JStr ''cfg-2'',
     rd_status = ''deploying'', rd_progress = 0, rd_vercelUrl = None, rd_videoPath = None,
     rd_duration = JNum 15, rd_effects = JStr ''None'', rd_createdAt = 1000\<rparr>"

definition deploy_response2 :: deploy_response where
  "deploy_response2 = \<lparr>dr_jobId = ''0123456789abcdef'', dr_status = ''deploying'',
     dr_progress = 0, dr_duration = JNum 15, dr_effects = JStr ''None'',
     dr_vercelUrl = ''https://nexus-apex-video-01234567.vercel.app'',
     dr_videoPath = ''/videos/output_0123456789abcdef.mp4'', dr_eta = ''3-5 minutes'',
     dr_message = check_mark @ '' Remotion video deployment started''\<rparr>"

text \<open>Score rows by creation time, a store of three and a store of eleven.\<close>

definition score_at :: "nat \<Rightarrow> image_score" where
  "score_at n = \<lparr>is_id = show_nat n, is_imageUrl = JStr ''a.png'', is_drama = 75,
     is_saliency = 80, is_emotion = 75, is_depth = 85, is_signature = 80, is_total = 79,
     is_feedback = ''Consider: enhance saliency, add depth, improve drama'',
     is_createdAt = int n * 1000\<rparr>"

definition three_scores :: db where
  "three_scores = empty_db\<lparr>image_scores := [score_at 1, score_at 3, score_at 2]\<rparr>"

definition eleven_scores :: db where
  "eleven_scores = empty_db\<lparr>image_scores := map score_at [0..<11]\<rparr>"

text \<open>
  A client's sequence of creation requests. A call carries the body and what the
  environment supplies to the handler; \<open>perform\<close> routes it to its handler and tells
  whether the answer was a 200; \<open>run\<close> performs the calls in order and tells whether
  all of them were answered with 200.
\<close>

datatype call =
    TrainLora body string int
  | GenerateJson body string int string
  | ScoreImage body string real real real real real int
  | ValidateAnatomy body string real real real int
  | DeployRemotion body string string int

fun route :: "call \<Rightarrow> string" where
  "route (TrainLora b u t) = ''/api/train-lora''"
| "route (GenerateJson b u t isoNow) = ''/api/generate-json''"
| "route (ScoreImage b u r1 r2 r3 r4 r5 t) = ''/api/score-image''"
| "route (ValidateAnatomy b u r1 r2 r3 t) = ''/api/validate-anatomy''"
| "route (DeployRemotion b u u2 t) = ''/api/deploy-remotion''"

definition is_OK :: "'a response \<Rightarrow> bool" where
  "is_OK r = (case r of OK v \<Rightarrow> True | Fail c m \<Rightarrow> False)"

fun perform :: "(json \<Rightarrow> string) \<Rightarrow> call \<Rightarrow> db \<Rightarrow> bool \<times> db" where
  "perform st (TrainLora b u t) d = (case train_lora b u t d of (r, d') \<Rightarrow> (is_OK r, d'))"
| "perform st (GenerateJson b u t isoNow) d =
     (case generate_json st b u t isoNow d of (r, d') \<Rightarrow> (is_OK r, d'))"
| "perform st (ScoreImage b u r1 r2 r3 r4 r5 t) d =
     (case score_image b u r1 r2 r3 r4 r5 t d of (r, d') \<Rightarrow> (is_OK r, d'))"
| "perform st (ValidateAnatomy b u r1 r2 r3 t) d =
     (case validate_anatomy st b u r1 r2 r3 t d of (r, d') \<Rightarrow> (is_OK r, d'))"
| "perform st (DeployRemotion b u u2 t) d =
     (case deploy_remotion b u u2 t d of (r, d') \<Rightarrow> (is_OK r, d'))"

fun run :: "(json \<Rightarrow> string) \<Rightarrow> call list \<Rightarrow> db \<Rightarrow> bool \<times> db" where
  "run st [] d = (True, d)"
| "run st (c # cs) d =
     (case perform st c d of (ok, d') \<Rightarrow> (case run st cs d' of (oks, d'') \<Rightarrow> (ok \<and> oks, d'')))"

definition tally :: "call list \<Rightarrow> string \<Rightarrow> nat" where
  "tally cs p = length (filter (\<lambda>c. route c = p) cs)"

text \<open>
  A configuration request with the three required fields only, the object composed for
  it and the row stored for it. Further down, a reader for the examples that reads back
  the serialised texts of the examples' objects.
\<close>

definition config_body :: body where
  "config_body = [''character'' \<mapsto> JStr ''Ada'', ''environment'' \<mapsto> JStr ''Forest'',
     ''lighting'' \<mapsto> JStr ''Dusk'']"

definition config1 :: json where
  "config1 = JObj [(''character'', JStr ''Ada''), (''environment'', JStr ''Forest''),
     (''lighting'', JStr ''Dusk''), (''camera'', JStr ''Standard''), (''style'', JStr ''Cinematic''),
     (''negativePrompt'', JStr ''deformed, blurry, low quality'')]"

definition config_row1 :: json_config where
  "config_row1 = \<lparr>jc_id = ''cfg-1'', jc_character = Text ''Ada'', jc_environment = Text ''Forest'',
     jc_lighting = Text ''Dusk'', jc_camera = Text ''Standard'', jc_style = Text ''Cinematic'',
     jc_negativePrompt = Text ''deformed, blurry, low quality'',
     jc_configJson = sample_stringify config1, jc_createdAt = 1000\<rparr>"

definition config_response1 :: config_response where
  "config_response1 = \<lparr>cr_id = ''cfg-1'', cr_jsonConfig = config1,
     cr_createdAt = ''1970-01-01T00:00:01.000Z'',
     cr_message = check_mark @ '' JSON Config generated successfully''\<rparr>"

text \<open>The same request with the number 123 as its character.\<close>

definition number_body :: body where
  "number_body = [''character'' \<mapsto> JNum 123, ''environment'' \<mapsto> JStr ''Forest'',
     ''lighting'' \<mapsto> JStr ''Dusk'']"

definition number_config :: json where
  "number_config = JObj [(''character'', JNum 123), (''environment'', JStr ''Forest''),
     (''lighting'', JStr ''Dusk''), (''camera'', JStr ''Standard''), (''style'', JStr ''Cinematic''),
     (''negativePrompt'', JStr ''deformed, blurry, low quality'')]"

definition number_row :: json_config where
  "number_row = \<lparr>jc_id = ''cfg-1'', jc_character = Text ''123'', jc_environment = Text ''Forest'',
     jc_lighting = Text ''Dusk'', jc_camera = Text ''Standard'', jc_style = Text ''Cinematic'',
     jc_negativePrompt = Text ''deformed, blurry, low quality'',
     jc_configJson = sample_stringify number_config, jc_createdAt = 1000\<rparr>"

definition number_response :: config_response where
  "number_response = \<lparr>cr_id = ''cfg-1'', cr_jsonConfig = number_config,
     cr_createdAt = ''1970-01-01T00:00:01.000Z'',
     cr_message = check_mark @ '' JSON Config generated successfully''\<rparr>"

definition sample_parse :: "string \<Rightarrow> json option" where
  "sample_parse s =
     (if s = sample_stringify config1 then Some config1
      else if s = sample_stringify number_config then Some number_config
      else None)"

text \<open>
  The structured fields of a stored configuration as a query returns them: a text column
  reads back as a string, NULL as \<open>null\<close>; a column whose characters are not modelled has
  no value here. \<open>parsed_fields\<close> puts the fields of a parsed \<open>configJson\<close> in the same
  shape, and \<open>is_string\<close> tells the strings among the JSON values.
\<close>

fun column_value :: "sql_text \<Rightarrow> json option" where
  "column_value Null = Some JNull"
| "column_value (Text s) = Some (JStr s)"
| "column_value (RealText x) = None"

definition structured_fields :: "json_config \<Rightarrow> (string \<times> json option) list" where
  "structured_fields row =
     [(''character'', column_value (jc_character row)),
      (''environment'', column_value (jc_environment row)),
      (''lighting'', column_value (jc_lighting row)),
      (''camera'', column_value (jc_camera row)),
      (''style'', column_value (jc_style row)),
      (''negativePrompt'', column_value (jc_negativePrompt row))]"

fun parsed_fields :: "json \<Rightarrow> (string \<times> json option) list" where
  "parsed_fields (JObj kvs) = map (\<lambda>kv. (fst kv, Some (snd kv))) kvs"
| "parsed_fields v = []"

fun is_string :: "json \<Rightarrow> bool" where
  "is_string (JStr s) = True"
| "is_string v = False"

text \<open>One successful call on each creation route.\<close>

definition five_calls :: "call list" where
  "five_calls =
     [TrainLora [''characterName'' \<mapsto> JStr ''Ada''] ''job-1'' 1000,
      GenerateJson config_body ''cfg-1'' 2000 ''1970-01-01T00:00:02.000Z'',
      ScoreImage image_body ''score-1'' (1 / 2) (1 / 2) (1 / 2) (1 / 2) (1 / 2) 3000,
      ValidateAnatomy image_body ''val-1'' (1 / 2) (1 / 2) (1 / 2) 4000,
      DeployRemotion Map.empty ''0123456789abcdef'' ''cfg-2'' 5000]"

section \<open>Truthiness\<close>

lemma truthy_Some: "truthy x \<Longrightarrow> \<exists>v. x = Some v"
  by (cases x) simp_all

section \<open>Rounding to two decimals\<close>

lemma toFixed2_cases:
  obtains n :: int where "x < 0" "toFixed2 x = - (real_of_int n / 100)"
      "real_of_int n \<le> (- x) * 100 + 1 / 2" "(- x) * 100 + 1 / 2 < real_of_int n + 1"
  | n :: int where "0 \<le> x" "toFixed2 x = real_of_int n / 100"
      "real_of_int n \<le> x * 100 + 1 / 2" "x * 100 + 1 / 2 < real_of_int n + 1"
proof (cases "x < 0")
  case True
  define n where "n = \<lfloor>(- x) * 100 + 1 / 2\<rfloor>"
  have "toFixed2 x = - (real_of_int n / 100)"
    using True unfolding toFixed2_def n_def by simp
  moreover have "real_of_int n \<le> (- x) * 100 + 1 / 2" "(- x) * 100 + 1 / 2 < real_of_int n + 1"
    unfolding n_def by linarith+
  ultimately show ?thesis using True that(1) by blast
next
  case False
  define n where "n = \<lfloor>x * 100 + 1 / 2\<rfloor>"
  have "toFixed2 x = real_of_int n / 100"
    using False unfolding toFixed2_def n_def by simp
  moreover have "real_of_int n \<le> x * 100 + 1 / 2" "x * 100 + 1 / 2 < real_of_int n + 1"
    unfolding n_def by linarith+
  ultimately show ?thesis using False that(2) by force
qed

lemma toFixed2_near: "\<bar>toFixed2 x - x\<bar> \<le> 1 / 200"
  by (cases x rule: toFixed2_cases) (simp_all only: abs_le_iff, linarith+)

lemma toFixed2_le_100: "x \<le> 100 \<Longrightarrow> toFixed2 x \<le> 100"
proof (cases x rule: toFixed2_cases)
  case (1 n)
  from 1 have "0 < real_of_int n + 1" by linarith
  then have "0 \<le> n" by linarith
  then show ?thesis using 1 by simp
next
  case (2 n)
  assume "x \<le> 100"
  with 2 have "real_of_int n < 10001" by linarith
  then have "n \<le> 10000" by linarith
  then have "real_of_int n \<le> 10000" by linarith
  then show ?thesis using 2 by simp
qed

lemma toFixed2_nonneg: "0 \<le> x \<Longrightarrow> 0 \<le> toFixed2 x"
  by (simp add: toFixed2_def)

lemma toFixed2_nonpos: "x \<le> 0 \<Longrightarrow> toFixed2 x \<le> 0"
  by (cases "x = 0") (simp_all add: toFixed2_def)

lemma toFixed2_grid: "\<exists>n::int. toFixed2 x * 100 = real_of_int n"
  by (cases x rule: toFixed2_cases) (simp_all, metis of_int_minus)

section \<open>Rounding to a double\<close>

lemma expo_bounds:
  assumes "x \<noteq> 0"
  shows "2 powi expo x \<le> \<bar>x\<bar>" and "\<bar>x\<bar> < 2 powi (expo x + 1)"
proof -
  have pos: "0 < \<bar>x\<bar>" using assms by simp
  have "\<lfloor>log 2 \<bar>x\<bar>\<rfloor> = expo x" by (simp add: expo_def)
  then have "2 powr real_of_int (expo x) \<le> \<bar>x\<bar> \<and> \<bar>x\<bar> < 2 powr (real_of_int (expo x) + 1)"
    using floor_log_eq_powr_iff [OF pos, of 2 "expo x"] by simp
  moreover have "real_of_int (expo x) + 1 = real_of_int (expo x + 1)" by simp
  ultimately show "2 powi expo x \<le> \<bar>x\<bar>" and "\<bar>x\<bar> < 2 powi (expo x + 1)"
    by (simp_all only: powr_real_of_int' [of 2, simplified])
qed

lemma expo_eq:
  assumes "2 powi e \<le> \<bar>x\<bar>" and "\<bar>x\<bar> < 2 powi (e + 1)"
  shows "expo x = e"
proof -
  have "0 < (2::real) powi e" by (simp add: zero_less_power_int)
  with assms(1) have pos: "0 < \<bar>x\<bar>" by linarith
  have "real_of_int e + 1 = real_of_int (e + 1)" by simp
  then have "2 powr real_of_int e \<le> \<bar>x\<bar> \<and> \<bar>x\<bar> < 2 powr (real_of_int e + 1)"
    using assms by (simp only: powr_real_of_int' [of 2, simplified])
  then show ?thesis
    unfolding expo_def using floor_log_eq_powr_iff [OF pos, of 2 e] by simp
qed

lemma rne_floor: "\<lfloor>y\<rfloor> \<le> rne y \<and> rne y \<le> \<lfloor>y\<rfloor> + 1"
  by (simp add: rne_def Let_def)

lemma rne_of_int: "rne (real_of_int n) = n"
  by (simp add: rne_def)

lemma rne_ge:
  assumes "real_of_int m \<le> y"
  shows "m \<le> rne y"
proof -
  have "m \<le> \<lfloor>y\<rfloor>" using assms by (simp add: le_floor_iff)
  with rne_floor [of y] show ?thesis by linarith
qed

lemma rne_le:
  assumes "y \<le> real_of_int m"
  shows "rne y \<le> m"
proof (cases "y = real_of_int m")
  case True
  then show ?thesis by (simp add: rne_of_int)
next
  case False
  with assms have "y < real_of_int m" by simp
  then have "\<lfloor>y\<rfloor> < m" by (simp add: floor_less_iff)
  with rne_floor [of y] show ?thesis by linarith
qed

lemma fl_0: "fl 0 = 0"
  by (simp add: fl_def)

lemma fl_nonneg:
  assumes "0 \<le> x"
  shows "0 \<le> fl x"
proof (cases "x = 0")
  case True
  then show ?thesis by (simp add: fl_def)
next
  case False
  define u :: real where "u = 2 powi (max (expo x) (- 1022) - 52)"
  have u: "0 < u" unfolding u_def by (simp add: zero_less_power_int)
  then have "real_of_int 0 \<le> x / u" using assms by simp
  then have "0 \<le> rne (x / u)" by (rule rne_ge)
  then have "0 \<le> real_of_int (rne (x / u)) * u" using u by simp
  then show ?thesis using False by (simp add: fl_def u_def Let_def)
qed

lemma fl_nonpos:
  assumes "x \<le> 0"
  shows "fl x \<le> 0"
proof (cases "x = 0")
  case True
  then show ?thesis by (simp add: fl_def)
next
  case False
  define u :: real where "u = 2 powi (max (expo x) (- 1022) - 52)"
  have u: "0 < u" unfolding u_def by (simp add: zero_less_power_int)
  then have "x / u \<le> real_of_int 0" using assms by (simp add: divide_le_0_iff)
  then have "rne (x / u) \<le> 0" by (rule rne_le)
  then have "real_of_int (rne (x / u)) * u \<le> 0" using u by (simp add: mult_le_0_iff)
  then show ?thesis using False by (simp add: fl_def u_def Let_def)
qed

lemma fl_eval:
  assumes "2 powi e \<le> \<bar>x\<bar>" and "\<bar>x\<bar> < 2 powi (e + 1)" and "- 1022 \<le> e"
  shows "fl x = real_of_int (rne (x / 2 powi (e - 52))) * 2 powi (e - 52)"
proof -
  have "0 < (2::real) powi e" by (simp add: zero_less_power_int)
  with assms(1) have "0 < \<bar>x\<bar>" by linarith
  then have "x \<noteq> 0" by simp
  moreover have "expo x = e" using assms(1,2) by (rule expo_eq)
  moreover have "max e (- 1022) = e" using assms(3) by simp
  ultimately show ?thesis by (simp add: fl_def Let_def)
qed

text \<open>Rounding never crosses a double: at or above the double \<open>c\<close> stays so.\<close>

lemma fl_ge:
  assumes c1: "2 powi ec \<le> c" and c2: "c < 2 powi (ec + 1)" and c3: "- 1022 \<le> ec"
      and c4: "c / 2 powi (ec - 52) = real_of_int m" and x: "c \<le> x"
  shows "c \<le> fl x"
proof -
  have p: "0 < (2::real) powi k" for k by (simp add: zero_less_power_int)
  have cpos: "0 < c" using c1 p [of ec] by linarith
  then have xpos: "0 < x" using x by linarith
  then have x0: "x \<noteq> 0" by simp
  define e where "e = expo x"
  have e1: "2 powi e \<le> x" and e2: "x < 2 powi (e + 1)"
    using expo_bounds [OF x0] xpos unfolding e_def by simp_all
  have "(2::real) powi ec < 2 powi (e + 1)" using c1 x e2 by linarith
  have le: "ec \<le> e"
  proof (rule ccontr)
    assume "\<not> ec \<le> e"
    then have "e + 1 \<le> ec" by simp
    then have "(2::real) powi (e + 1) \<le> 2 powi ec" by (simp add: power_int_increasing)
    with \<open>(2::real) powi ec < 2 powi (e + 1)\<close> show False by linarith
  qed
  define u :: real where "u = 2 powi (e - 52)"
  have u: "0 < u" unfolding u_def by (rule p)
  have flx: "fl x = real_of_int (rne (x / u)) * u"
    unfolding u_def using fl_eval [of e x] e1 e2 xpos le c3 by simp
  show ?thesis
  proof (cases "e = ec")
    case True
    then have "c / u = real_of_int m" using c4 by (simp add: u_def)
    moreover have "c / u \<le> x / u" using x u by (simp add: divide_right_mono)
    ultimately have "m \<le> rne (x / u)" using rne_ge by simp
    then have "real_of_int m * u \<le> real_of_int (rne (x / u)) * u" using u by simp
    moreover have "real_of_int m * u = c" using \<open>c / u = real_of_int m\<close> u by (simp add: field_simps)
    ultimately show ?thesis using flx by simp
  next
    case False
    with le have lt: "ec + 1 \<le> e" by simp
    have "(2::real) powi e = 2 powi (e - 52) * 2 powi 52"
      using power_int_add [of "2::real" "e - 52" 52] by simp
    then have "real_of_int (2 ^ 52) = 2 powi e / u" using u by (simp add: u_def)
    also have "\<dots> \<le> x / u" using e1 u by (simp add: divide_right_mono)
    finally have "2 ^ 52 \<le> rne (x / u)" by (rule rne_ge)
    then have "real_of_int (2 ^ 52) * u \<le> real_of_int (rne (x / u)) * u" using u by simp
    moreover have "real_of_int (2 ^ 52) * u = 2 powi e"
      using \<open>real_of_int (2 ^ 52) = 2 powi e / u\<close> u by (simp add: field_simps)
    moreover have "(2::real) powi (ec + 1) \<le> 2 powi e"
      using lt by (simp add: power_int_increasing)
    ultimately show ?thesis using flx c2 by linarith
  qed
qed

lemma fl_ge_1: "1 \<le> x \<Longrightarrow> 1 \<le> fl x"
  by (rule fl_ge [where ec = 0 and m = "2 ^ 52"]) simp_all

lemma fl_ge_100: "100 \<le> x \<Longrightarrow> 100 \<le> fl x"
  by (rule fl_ge [where ec = 6 and m = "100 * 2 ^ 46"]) simp_all

lemma fl_ge_120000: "120000 \<le> x \<Longrightarrow> 120000 \<le> fl x"
  by (rule fl_ge [where ec = 16 and m = "120000 * 2 ^ 36"]) simp_all

lemma fl_ge_180000: "180000 \<le> x \<Longrightarrow> 180000 \<le> fl x"
  by (rule fl_ge [where ec = 17 and m = "180000 * 2 ^ 35"]) simp_all

section \<open>Progress of a polled job\<close>

lemma estimate_le_100: "estimate now T D \<le> 100"
  unfolding estimate_def by (rule toFixed2_le_100) simp

lemma estimate_nonneg:
  assumes "0 < D" and "T \<le> now"
  shows "0 \<le> estimate now T D"
proof -
  have "0 \<le> fl (real_of_int now - real_of_int T)" using assms(2) by (intro fl_nonneg) simp
  then have "0 \<le> fl (real_of_int now - real_of_int T) / real_of_int D" using assms(1) by simp
  then have "0 \<le> fl (fl (real_of_int now - real_of_int T) / real_of_int D) * 100"
    using fl_nonneg by simp
  then have "0 \<le> fl (fl (fl (real_of_int now - real_of_int T) / real_of_int D) * 100)"
    by (rule fl_nonneg)
  then have "0 \<le> min 100 (fl (fl (fl (real_of_int now - real_of_int T) / real_of_int D) * 100))"
    by simp
  then show ?thesis unfolding estimate_def by (rule toFixed2_nonneg)
qed

lemma estimate_early:
  assumes "0 < D" and "now \<le> T"
  shows "estimate now T D \<le> 0"
proof -
  have "fl (real_of_int now - real_of_int T) \<le> 0" using assms(2) by (intro fl_nonpos) simp
  then have "fl (real_of_int now - real_of_int T) / real_of_int D \<le> 0"
    using assms(1) by (simp add: divide_le_0_iff)
  then have "fl (fl (real_of_int now - real_of_int T) / real_of_int D) \<le> 0" by (rule fl_nonpos)
  then have "fl (fl (real_of_int now - real_of_int T) / real_of_int D) * 100 \<le> 0" by simp
  then have "fl (fl (fl (real_of_int now - real_of_int T) / real_of_int D) * 100) \<le> 0"
    by (rule fl_nonpos)
  then have "min 100 (fl (fl (fl (real_of_int now - real_of_int T) / real_of_int D) * 100)) \<le> 0"
    by simp
  then show ?thesis unfolding estimate_def by (rule toFixed2_nonpos)
qed

lemma estimate_start: "estimate T T D = 0"
  by (simp add: estimate_def fl_0 toFixed2_def)

lemma estimate_saturated:
  assumes "D = 120000 \<or> D = 180000" and "T + D \<le> now"
  shows "estimate now T D = 100"
proof -
  define el where "el = fl (real_of_int now - real_of_int T)"
  have D: "0 < D" using assms(1) by auto
  have "real_of_int D \<le> real_of_int now - real_of_int T" using assms(2) by linarith
  then have "real_of_int D \<le> el"
    unfolding el_def using assms(1) fl_ge_120000 fl_ge_180000 by auto
  then have "1 \<le> el / real_of_int D" using D by (simp add: le_divide_eq)
  then have "1 \<le> fl (el / real_of_int D)" by (rule fl_ge_1)
  then have "100 \<le> fl (el / real_of_int D) * 100" by simp
  then have "100 \<le> fl (fl (el / real_of_int D) * 100)" by (rule fl_ge_100)
  then have "min 100 (fl (fl (el / real_of_int D) * 100)) = 100" by simp
  then have "toFixed2 (min 100 (fl (fl (el / real_of_int D) * 100))) = 100"
    by (simp add: toFixed2_def)
  then show ?thesis unfolding estimate_def el_def .
qed

lemma estimate_is_spec:
  assumes "0 < D" and "T \<le> now"
  shows "estimate now T D = progress_spec now T D"
proof -
  have "0 \<le> fl (real_of_int now - real_of_int T) / real_of_int D"
    using assms fl_nonneg [of "real_of_int now - real_of_int T"] by simp
  then have "0 \<le> fl (fl (real_of_int now - real_of_int T) / real_of_int D) * 100"
    using fl_nonneg by simp
  then have "0 \<le> fl (fl (fl (real_of_int now - real_of_int T) / real_of_int D) * 100)"
    by (rule fl_nonneg)
  then show ?thesis by (simp add: estimate_def progress_spec_def clamp_def max_def)
qed

lemma estimate_training:
  "estimate now T 120000
     = toFixed2 (min 100 (fl (fl (fl (real_of_int now - real_of_int T) / 120000) * 100)))"
  by (simp add: estimate_def)

lemma estimate_deployment:
  "estimate now T 180000
     = toFixed2 (min 100 (fl (fl (fl (real_of_int now - real_of_int T) / 180000) * 100)))"
  by (simp add: estimate_def)

lemma get_training_found:
  "find (\<lambda>r. lt_id r = j) (lora_trainings d) = Some tr \<Longrightarrow>
   get_training j now d = OK (tr\<lparr>lt_progress := estimate now (lt_createdAt tr) 120000\<rparr>)"
  unfolding get_training_def estimate_training by (simp only: Let_def option.case)

lemma get_deployment_found:
  "find (\<lambda>r. rd_id r = k) (remotion_deployments d) = Some dp \<Longrightarrow>
   get_deployment k now d = OK (dp\<lparr>rd_progress := estimate now (rd_createdAt dp) 180000\<rparr>)"
  unfolding get_deployment_def estimate_deployment by (simp only: Let_def option.case)

text \<open>Values of the estimate, each double computed step by step.\<close>

lemma estimate_half_training: "estimate 180000 120000 120000 = 50"
proof -
  have a: "fl (real_of_int 180000 - real_of_int 120000) = 60000"
    by (subst fl_eval [where e = 15]) (simp_all add: rne_def)
  have b: "fl (60000 / real_of_int 120000) = 1 / 2"
    by (subst fl_eval [where e = "- 1"]) (simp_all add: rne_def)
  have c: "fl (1 / 2 * 100) = 50"
    by (subst fl_eval [where e = 5]) (simp_all add: rne_def)
  show ?thesis unfolding estimate_def a b c by (simp add: toFixed2_def)
qed

lemma estimate_third_deployment: "estimate 180000 120000 180000 = 3333 / 100"
proof -
  have a: "fl (real_of_int 180000 - real_of_int 120000) = 60000"
    by (subst fl_eval [where e = 15]) (simp_all add: rne_def)
  have b: "fl (60000 / real_of_int 180000) = 6004799503160661 / 18014398509481984"
    by (subst fl_eval [where e = "- 2"]) (simp_all add: rne_def)
  have c: "fl (6004799503160661 / 18014398509481984 * 100)
      = 4691249611844266 / 140737488355328"
    by (subst fl_eval [where e = 5]) (simp_all add: rne_def)
  show ?thesis unfolding estimate_def a b c by (simp add: toFixed2_def)
qed

lemma estimate_18ms: "estimate 120018 120000 120000 = 1 / 100"
proof -
  have a: "fl (real_of_int 120018 - real_of_int 120000) = 18"
    by (subst fl_eval [where e = 4]) (simp_all add: rne_def)
  have b: "fl (18 / real_of_int 120000) = 5534023222112865 / 36893488147419103232"
    by (subst fl_eval [where e = "- 13"]) (simp_all add: rne_def)
  have c: "fl (5534023222112865 / 36893488147419103232 * 100)
      = 1080863910568919 / 72057594037927936"
    by (subst fl_eval [where e = "- 7"]) (simp_all add: rne_def)
  show ?thesis unfolding estimate_def a b c by (simp add: toFixed2_def)
qed

lemma estimate_minus_18ms: "estimate 119982 120000 120000 = - (1 / 100)"
proof -
  have a: "fl (real_of_int 119982 - real_of_int 120000) = - 18"
    by (subst fl_eval [where e = 4]) (simp_all add: rne_def)
  have b: "fl (- 18 / real_of_int 120000) = - (5534023222112865 / 36893488147419103232)"
    by (subst fl_eval [where e = "- 13"]) (simp_all add: rne_def)
  have c: "fl (- (5534023222112865 / 36893488147419103232) * 100)
      = - (1080863910568919 / 72057594037927936)"
    by (subst fl_eval [where e = "- 7"]) (simp_all add: rne_def)
  show ?thesis unfolding estimate_def a b c by (simp add: toFixed2_def)
qed

lemma estimate_before: "estimate 60000 120000 120000 = - 50"
proof -
  have a: "fl (real_of_int 60000 - real_of_int 120000) = - 60000"
    by (subst fl_eval [where e = 15]) (simp_all add: rne_def)
  have b: "fl (- 60000 / real_of_int 120000) = - (1 / 2)"
    by (subst fl_eval [where e = "- 1"]) (simp_all add: rne_def)
  have c: "fl (- (1 / 2) * 100) = - 50"
    by (subst fl_eval [where e = 5]) (simp_all add: rne_def)
  show ?thesis unfolding estimate_def a b c by (simp add: toFixed2_def)
qed

lemma progress_spec_before: "progress_spec 60000 120000 120000 = 0"
proof -
  have a: "fl (real_of_int 60000 - real_of_int 120000) = - 60000"
    by (subst fl_eval [where e = 15]) (simp_all add: rne_def)
  have b: "fl (- 60000 / real_of_int 120000) = - (1 / 2)"
    by (subst fl_eval [where e = "- 1"]) (simp_all add: rne_def)
  have c: "fl (- (1 / 2) * 100) = - 50"
    by (subst fl_eval [where e = 5]) (simp_all add: rne_def)
  show ?thesis unfolding progress_spec_def a b c by (simp add: toFixed2_def clamp_def)
qed

text \<open>
  C1, as the code has it. \<open>T\<close> is the creation time of the stored row as the handler reads
  it, \<open>new Date(row.createdAt)\<close>, and \<open>D\<close> is 120000 ms for a training and 180000 ms for a
  deployment. A poll of a stored training, and likewise of a stored deployment, answers
  with the row and, for its progress, \<open>min(100, ((now - T) / D) * 100)\<close> computed in
  doubles and rounded to 2 decimals by \<open>toFixed\<close>: a multiple of 0.01 within 0.005 of that
  double. The progress never exceeds 100, is 0 at \<open>now = T\<close> and 100 from \<open>T + D\<close> on, and
  for \<open>now \<ge> T\<close> it is non-negative and equal to the clamped formula of the specification.
  There is no lower clamp: for \<open>now \<le> T\<close> the progress is at most 0.
\<close>

theorem poll_progress:
  assumes "D = 120000 \<or> D = 180000"
  shows "(find (\<lambda>r. lt_id r = j) (lora_trainings d) = Some tr \<longrightarrow>
            get_training j now d = OK (tr\<lparr>lt_progress := estimate now (lt_createdAt tr) 120000\<rparr>))
       \<and> (find (\<lambda>r. rd_id r = k) (remotion_deployments d) = Some dp \<longrightarrow>
            get_deployment k now d = OK (dp\<lparr>rd_progress := estimate now (rd_createdAt dp) 180000\<rparr>))
       \<and> estimate now T D \<le> 100
       \<and> estimate T T D = 0
       \<and> estimate (T + D) T D = 100
       \<and> (T + D \<le> now \<longrightarrow> estimate now T D = 100)
       \<and> (T \<le> now \<longrightarrow> 0 \<le> estimate now T D \<and> estimate now T D = progress_spec now T D)
       \<and> (now \<le> T \<longrightarrow> estimate now T D \<le> 0)
       \<and> \<bar>estimate now T D
            - min 100 (fl (fl (fl (real_of_int now - real_of_int T) / real_of_int D) * 100))\<bar>
          \<le> 1 / 200
       \<and> (\<exists>n::int. estimate now T D * 100 = real_of_int n)"
proof -
  have D: "0 < D" using assms by auto
  have "estimate (T + D) T D = 100" using assms by (simp add: estimate_saturated)
  moreover have "\<exists>n::int. estimate now T D * 100 = real_of_int n"
    unfolding estimate_def by (rule toFixed2_grid)
  moreover have "\<bar>estimate now T D
      - min 100 (fl (fl (fl (real_of_int now - real_of_int T) / real_of_int D) * 100))\<bar> \<le> 1 / 200"
    unfolding estimate_def by (rule toFixed2_near)
  moreover have "T \<le> now \<longrightarrow> 0 \<le> estimate now T D \<and> estimate now T D = progress_spec now T D"
    using D estimate_nonneg estimate_is_spec by blast
  moreover have "T + D \<le> now \<longrightarrow> estimate now T D = 100"
    using assms estimate_saturated by blast
  moreover have "now \<le> T \<longrightarrow> estimate now T D \<le> 0"
    using D estimate_early by blast
  moreover have "find (\<lambda>r. lt_id r = j) (lora_trainings d) = Some tr \<longrightarrow>
      get_training j now d = OK (tr\<lparr>lt_progress := estimate now (lt_createdAt tr) 120000\<rparr>)"
    using get_training_found [of j d tr now] by blast
  moreover have "find (\<lambda>r. rd_id r = k) (remotion_deployments d) = Some dp \<longrightarrow>
      get_deployment k now d = OK (dp\<lparr>rd_progress := estimate now (rd_createdAt dp) 180000\<rparr>)"
    using get_deployment_found [of k d dp now] by blast
  moreover note estimate_le_100 [of now T D] estimate_start [of T D]
  ultimately show ?thesis by blast
qed

theorem poll_progress_witness:
  "find (\<lambda>r. lt_id r = ''job-1'') (lora_trainings jobs_db) = Some training1
   \<and> find (\<lambda>r. rd_id r = ''job-2'') (remotion_deployments jobs_db) = Some deployment1
   \<and> get_training ''job-1'' 180000 jobs_db = OK (training1\<lparr>lt_progress := 50\<rparr>)
   \<and> get_deployment ''job-2'' 180000 jobs_db = OK (deployment1\<lparr>rd_progress := 3333 / 100\<rparr>)
   \<and> get_training ''job-1'' 120018 jobs_db = OK (training1\<lparr>lt_progress := 1 / 100\<rparr>)
   \<and> get_training ''job-1'' 119982 jobs_db = OK (training1\<lparr>lt_progress := - (1 / 100)\<rparr>)
   \<and> find (\<lambda>r. rd_id r = ''job-2'') (remotion_deployments (jobs_db\<lparr>remotion_deployments := []\<rparr>))
       = None
   \<and> get_training ''job-1'' 180000 (jobs_db\<lparr>remotion_deployments := []\<rparr>)
       = OK (training1\<lparr>lt_progress := 50\<rparr>)
   \<and> estimate 180000 120000 120000 = progress_spec 180000 120000 120000
   \<and> estimate 120000 120000 120000 = 0
   \<and> estimate 240000 120000 120000 = 100"
proof -
  have f1: "find (\<lambda>r. lt_id r = ''job-1'') (lora_trainings jobs_db) = Some training1"
    by (simp add: jobs_db_def training1_def)
  have f2: "find (\<lambda>r. rd_id r = ''job-2'') (remotion_deployments jobs_db) = Some deployment1"
    by (simp add: jobs_db_def deployment1_def)
  have f3: "find (\<lambda>r. lt_id r = ''job-1'') (lora_trainings (jobs_db\<lparr>remotion_deployments := []\<rparr>))
      = Some training1"
    by (simp add: jobs_db_def training1_def)
  have f4: "find (\<lambda>r. rd_id r = ''job-2'')
      (remotion_deployments (jobs_db\<lparr>remotion_deployments := []\<rparr>)) = None"
    by simp
  have c1: "lt_createdAt training1 = 120000" by (simp add: training1_def)
  have c2: "rd_createdAt deployment1 = 120000" by (simp add: deployment1_def)
  have D: "(120000::int) = 120000 \<or> (120000::int) = 180000" by simp
  from poll_progress [OF D, of "''job-1''" jobs_db training1 180000 "''job-2''" deployment1 120000]
    poll_progress [OF D, of "''job-1''" jobs_db training1 120018 "''job-2''" deployment1 120000]
    poll_progress [OF D, of "''job-1''" jobs_db training1 119982 "''job-2''" deployment1 120000]
    poll_progress [OF D, of "''job-1''" "jobs_db\<lparr>remotion_deployments := []\<rparr>" training1 180000
      "''job-2''" deployment1 120000]
    f1 f2 f3 f4 c1 c2 estimate_half_training estimate_third_deployment estimate_18ms
    estimate_minus_18ms
  show ?thesis by simp
qed

text \<open>
  C1 as stated fails below the creation time: a training created at 120000 ms and polled at
  60000 ms reports the progress -50, where the clamped formula gives 0.
\<close>

theorem poll_progress_counterexample:
  "get_training ''job-1'' 60000 jobs_db = OK (training1\<lparr>lt_progress := - 50\<rparr>)
   \<and> progress_spec 60000 120000 120000 = 0"
proof -
  have f1: "find (\<lambda>r. lt_id r = ''job-1'') (lora_trainings jobs_db) = Some training1"
    by (simp add: jobs_db_def training1_def)
  have c1: "lt_createdAt training1 = 120000" by (simp add: training1_def)
  from get_training_found [OF f1, of 60000] c1 estimate_before progress_spec_before
  show ?thesis by simp
qed

section \<open>Image scores\<close>

lemma Math_round_range:
  "real_of_int lo \<le> x \<Longrightarrow> x \<le> real_of_int hi \<Longrightarrow> lo \<le> Math_round x \<and> Math_round x \<le> hi"
  unfolding Math_round_def by (simp add: le_floor_iff floor_le_iff)

lemma Math_round_draw:
  assumes "0 \<le> r \<and> r < 1" "0 \<le> w"
  shows "base \<le> Math_round (r * real_of_int w + real_of_int base)
       \<and> Math_round (r * real_of_int w + real_of_int base) \<le> base + w"
proof (rule Math_round_range)
  have "0 \<le> r * real_of_int w" using assms by simp
  then show "real_of_int base \<le> r * real_of_int w + real_of_int base" by simp
  have "r * real_of_int w \<le> 1 * real_of_int w"
    using assms by (intro mult_right_mono) simp_all
  then show "r * real_of_int w + real_of_int base \<le> real_of_int (base + w)" by simp
qed

lemma show_nat_79: "show_nat 79 = ''79''"
  by (simp add: show_nat.simps digit_def)

lemma score_image_success:
  assumes "truthy (b ''imageUrl'')" and "scoreId \<notin> set (map is_id (image_scores d))"
  shows "\<exists>resp d'. score_image b scoreId r1 r2 r3 r4 r5 now d = (OK resp, d')
         \<and> sr_drama resp = Math_round (r1 * 30 + 60)
         \<and> sr_saliency resp = Math_round (r2 * 30 + 65)
         \<and> sr_emotion resp = Math_round (r3 * 30 + 60)
         \<and> sr_depth resp = Math_round (r4 * 30 + 70)
         \<and> sr_signature resp = Math_round (r5 * 30 + 65)
         \<and> sr_total resp = Math_round (real_of_int (sr_drama resp + sr_saliency resp
              + sr_emotion resp + sr_depth resp + sr_signature resp) / 5)
         \<and> (sr_quality resp, sr_feedback resp) = band (sr_total resp)"
proof -
  from assms(1) obtain u where u: "b ''imageUrl'' = Some u" using truthy_Some by blast
  with assms(1) have t: "truthy (Some u)" by simp
  show ?thesis
    unfolding score_image_def using u t assms(2)
    by (simp add: Let_def insert_score_def)
qed

lemma band_of_response:
  assumes "score_image b scoreId r1 r2 r3 r4 r5 now d = (OK resp, d')"
  shows "(sr_quality resp, sr_feedback resp) = band (sr_total resp)"
  using assms unfolding score_image_def
  by (auto simp: Let_def insert_score_def split: option.splits if_splits sum.splits)

lemma score_image_example:
  "score_image image_body ''score-1'' (1 / 2) (1 / 2) (1 / 2) (1 / 2) (1 / 2) 1000 empty_db
     = (OK score_response1, empty_db\<lparr>image_scores := [score_row1]\<rparr>)"
  by (simp add: score_image_def image_body_def empty_db_def insert_score_def Math_round_def
      Let_def band_def score_response1_def score_row1_def show_int_def show_nat_79)

text \<open>
  C2. The band of a successful response is the band of its rounded total, and on
  \<open>[0, 100]\<close> the band is fixed by the thresholds: 85 and above Excellent, 75 to 84 Good,
  60 to 74 Fair, 59 and below Weak, each with its feedback text; the six boundary values
  fall as the specification lists them.
\<close>

theorem score_image_banding:
  assumes "score_image b scoreId r1 r2 r3 r4 r5 now d = (OK resp, d')"
      and "0 \<le> t" and "t \<le> 100"
  shows "(sr_quality resp, sr_feedback resp) = band (sr_total resp)
       \<and> (85 \<le> t \<longrightarrow>
            band t = (''Excellent'', ''Masterpiece level! All dimensions are outstanding.''))
       \<and> (75 \<le> t \<and> t \<le> 84 \<longrightarrow>
            band t = (''Good'', ''Consider: enhance saliency, add depth, improve drama''))
       \<and> (60 \<le> t \<and> t \<le> 74 \<longrightarrow>
            band t = (''Fair'', ''Work on composition, lighting, and focus''))
       \<and> (t \<le> 59 \<longrightarrow>
            band t = (''Weak'', ''Major improvements needed in multiple areas''))
       \<and> fst (band 85) = ''Excellent'' \<and> fst (band 84) = ''Good'' \<and> fst (band 75) = ''Good''
       \<and> fst (band 74) = ''Fair'' \<and> fst (band 60) = ''Fair'' \<and> fst (band 59) = ''Weak''"
  using band_of_response [OF assms(1)] by (simp add: band_def)

theorem score_image_banding_witness:
  "score_image image_body ''score-1'' (1 / 2) (1 / 2) (1 / 2) (1 / 2) (1 / 2) 1000 empty_db
     = (OK score_response1, empty_db\<lparr>image_scores := [score_row1]\<rparr>)
   \<and> (sr_quality score_response1, sr_feedback score_response1) = band 79
   \<and> band 90 = (''Excellent'', ''Masterpiece level! All dimensions are outstanding.'')
   \<and> band 80 = (''Good'', ''Consider: enhance saliency, add depth, improve drama'')
   \<and> band 70 = (''Fair'', ''Work on composition, lighting, and focus'')
   \<and> band 50 = (''Weak'', ''Major improvements needed in multiple areas'')"
proof -
  note ex = score_image_example
  have tot: "sr_total score_response1 = 79" by (simp add: score_response1_def)
  from score_image_banding [OF ex, of 90] score_image_banding [OF ex, of 80]
    score_image_banding [OF ex, of 70] score_image_banding [OF ex, of 50] ex tot
  show ?thesis by simp
qed

text \<open>
  C10. With every draw in \<open>[0, 1)\<close>, a scoring request with an image URL and a fresh
  identifier succeeds; the five dimensions lie in \<open>[60, 90]\<close>, \<open>[65, 95]\<close>,
  \<open>[60, 90]\<close>, \<open>[70, 100]\<close> and \<open>[65, 95]\<close>, the rounded total in \<open>[64, 94]\<close>, and the
  band is Excellent, Good or Fair: never Weak, never its feedback text. Each of the three is
  reached: Fair by the draws 0 (total 64), Good by the draws 1/2 (total 79), Excellent by
  the draws 99/100 (total 94).
\<close>

theorem score_image_total_range:
  assumes "truthy (b ''imageUrl'')" and "scoreId \<notin> set (map is_id (image_scores d))"
      and "0 \<le> r1 \<and> r1 < 1" and "0 \<le> r2 \<and> r2 < 1" and "0 \<le> r3 \<and> r3 < 1"
      and "0 \<le> r4 \<and> r4 < 1" and "0 \<le> r5 \<and> r5 < 1"
  shows "(\<exists>resp d'. score_image b scoreId r1 r2 r3 r4 r5 now d = (OK resp, d')
            \<and> 60 \<le> sr_drama resp \<and> sr_drama resp \<le> 90
            \<and> 65 \<le> sr_saliency resp \<and> sr_saliency resp \<le> 95
            \<and> 60 \<le> sr_emotion resp \<and> sr_emotion resp \<le> 90
            \<and> 70 \<le> sr_depth resp \<and> sr_depth resp \<le> 100
            \<and> 65 \<le> sr_signature resp \<and> sr_signature resp \<le> 95
            \<and> 64 \<le> sr_total resp \<and> sr_total resp \<le> 94
            \<and> sr_quality resp \<in> {''Excellent'', ''Good'', ''Fair''}
            \<and> sr_quality resp \<noteq> ''Weak''
            \<and> sr_feedback resp \<noteq> ''Major improvements needed in multiple areas'')
       \<and> (\<exists>resp d'. score_image b scoreId 0 0 0 0 0 now d = (OK resp, d')
            \<and> sr_total resp = 64 \<and> sr_quality resp = ''Fair'')
       \<and> (\<exists>resp d'. score_image b scoreId (1 / 2) (1 / 2) (1 / 2) (1 / 2) (1 / 2) now d
              = (OK resp, d')
            \<and> sr_total resp = 79 \<and> sr_quality resp = ''Good'')
       \<and> (\<exists>resp d'. score_image b scoreId (99 / 100) (99 / 100) (99 / 100) (99 / 100) (99 / 100)
              now d = (OK resp, d')
            \<and> sr_total resp = 94 \<and> sr_quality resp = ''Excellent'')"
proof -
  from score_image_success [where b = b and ?r1.0 = r1 and ?r2.0 = r2 and ?r3.0 = r3 and ?r4.0 = r4
      and ?r5.0 = r5 and now = now, OF assms(1,2)]
  obtain resp d' where ok: "score_image b scoreId r1 r2 r3 r4 r5 now d = (OK resp, d')"
    and dr: "sr_drama resp = Math_round (r1 * 30 + 60)"
    and sa: "sr_saliency resp = Math_round (r2 * 30 + 65)"
    and em: "sr_emotion resp = Math_round (r3 * 30 + 60)"
    and de: "sr_depth resp = Math_round (r4 * 30 + 70)"
    and si: "sr_signature resp = Math_round (r5 * 30 + 65)"
    and to: "sr_total resp = Math_round (real_of_int (sr_drama resp + sr_saliency resp
              + sr_emotion resp + sr_depth resp + sr_signature resp) / 5)"
    and ba: "(sr_quality resp, sr_feedback resp) = band (sr_total resp)"
    by blast
  have b1: "60 \<le> sr_drama resp \<and> sr_drama resp \<le> 90"
    using Math_round_draw [OF assms(3), of 30 60] dr by simp
  have b2: "65 \<le> sr_saliency resp \<and> sr_saliency resp \<le> 95"
    using Math_round_draw [OF assms(4), of 30 65] sa by simp
  have b3: "60 \<le> sr_emotion resp \<and> sr_emotion resp \<le> 90"
    using Math_round_draw [OF assms(5), of 30 60] em by simp
  have b4: "70 \<le> sr_depth resp \<and> sr_depth resp \<le> 100"
    using Math_round_draw [OF assms(6), of 30 70] de by simp
  have b5: "65 \<le> sr_signature resp \<and> sr_signature resp \<le> 95"
    using Math_round_draw [OF assms(7), of 30 65] si by simp
  define s where "s = sr_drama resp + sr_saliency resp + sr_emotion resp + sr_depth resp
    + sr_signature resp"
  have s: "320 \<le> s \<and> s \<le> 470" unfolding s_def using b1 b2 b3 b4 b5 by linarith
  have "real_of_int 64 \<le> real_of_int s / 5 \<and> real_of_int s / 5 \<le> real_of_int 94"
    using s by simp
  then have "64 \<le> Math_round (real_of_int s / 5) \<and> Math_round (real_of_int s / 5) \<le> 94"
    using Math_round_range by blast
  then have b6: "64 \<le> sr_total resp \<and> sr_total resp \<le> 94"
    using to unfolding s_def by simp
  have q: "sr_quality resp = fst (band (sr_total resp))"
    and f: "sr_feedback resp = snd (band (sr_total resp))"
    using ba by (metis fst_conv, metis snd_conv)
  have b7: "sr_quality resp \<in> {''Excellent'', ''Good'', ''Fair''} \<and> sr_quality resp \<noteq> ''Weak''
      \<and> sr_feedback resp \<noteq> ''Major improvements needed in multiple areas''"
    unfolding q f using b6 by (simp add: band_def)
  have general: "\<exists>resp d'. score_image b scoreId r1 r2 r3 r4 r5 now d = (OK resp, d')
            \<and> 60 \<le> sr_drama resp \<and> sr_drama resp \<le> 90
            \<and> 65 \<le> sr_saliency resp \<and> sr_saliency resp \<le> 95
            \<and> 60 \<le> sr_emotion resp \<and> sr_emotion resp \<le> 90
            \<and> 70 \<le> sr_depth resp \<and> sr_depth resp \<le> 100
            \<and> 65 \<le> sr_signature resp \<and> sr_signature resp \<le> 95
            \<and> 64 \<le> sr_total resp \<and> sr_total resp \<le> 94
            \<and> sr_quality resp \<in> {''Excellent'', ''Good'', ''Fair''}
            \<and> sr_quality resp \<noteq> ''Weak''
            \<and> sr_feedback resp \<noteq> ''Major improvements needed in multiple areas''"
    using ok b1 b2 b3 b4 b5 b6 b7 by blast
  from assms(1) obtain u where u: "b ''imageUrl'' = Some u" using truthy_Some by blast
  with assms(1) have t: "truthy (Some u)" by simp
  have fair: "\<exists>resp d'. score_image b scoreId 0 0 0 0 0 now d = (OK resp, d')
            \<and> sr_total resp = 64 \<and> sr_quality resp = ''Fair''"
    unfolding score_image_def using u t assms(2)
    by (simp add: Let_def insert_score_def Math_round_def band_def)
  have good: "\<exists>resp d'. score_image b scoreId (1 / 2) (1 / 2) (1 / 2) (1 / 2) (1 / 2) now d
              = (OK resp, d')
            \<and> sr_total resp = 79 \<and> sr_quality resp = ''Good''"
    unfolding score_image_def using u t assms(2)
    by (simp add: Let_def insert_score_def Math_round_def band_def)
  have excellent: "\<exists>resp d'. score_image b scoreId (99 / 100) (99 / 100) (99 / 100) (99 / 100)
              (99 / 100) now d = (OK resp, d')
            \<and> sr_total resp = 94 \<and> sr_quality resp = ''Excellent''"
    unfolding score_image_def using u t assms(2)
    by (simp add: Let_def insert_score_def Math_round_def band_def)
  from general fair good excellent show ?thesis by blast
qed

theorem score_image_total_range_witness:
  "truthy (image_body ''imageUrl'') \<and> ''score-1'' \<notin> set (map is_id (image_scores empty_db))
   \<and> score_image image_body ''score-1'' (1 / 2) (1 / 2) (1 / 2) (1 / 2) (1 / 2) 1000 empty_db
       = (OK score_response1, empty_db\<lparr>image_scores := [score_row1]\<rparr>)
   \<and> 64 \<le> sr_total score_response1 \<and> sr_total score_response1 \<le> 94
   \<and> sr_quality score_response1 \<noteq> ''Weak''"
proof -
  have h1: "truthy (image_body ''imageUrl'')" by (simp add: image_body_def)
  have h2: "''score-1'' \<notin> set (map is_id (image_scores empty_db))" by (simp add: empty_db_def)
  have h3: "0 \<le> (1 / 2 :: real) \<and> (1 / 2 :: real) < 1" by simp
  from score_image_total_range [where b = image_body and now = 1000, OF h1 h2 h3 h3 h3 h3 h3]
    h1 h2 score_image_example
  show ?thesis by auto
qed

section \<open>Anatomy validations\<close>

lemma Math_round_near: "\<bar>real_of_int (Math_round x) - x\<bar> \<le> 1 / 2"
  unfolding Math_round_def by linarith

lemma show_nat_90: "show_nat 90 = ''90''"
  by (simp add: show_nat.simps digit_def)

lemma validate_anatomy_example:
  "validate_anatomy sample_stringify image_body ''val-1'' (1 / 2) (1 / 2) (1 / 2) 1000 empty_db
     = (OK anatomy_response1, empty_db\<lparr>anatomy_validations := [validation_row1]\<rparr>)"
  by (simp add: validate_anatomy_def image_body_def empty_db_def insert_validation_def
      Let_def Math_round_def anatomy_issues_def anatomy_response1_def validation_row1_def
      show_int_def show_nat_90)

lemma validate_anatomy_success:
  assumes "truthy (b ''imageUrl'')" and "validationId \<notin> set (map av_id (anatomy_validations d))"
  shows "\<exists>resp d' row. validate_anatomy stringify b validationId r1 r2 r3 now d = (OK resp, d')
         \<and> anatomy_validations d' = anatomy_validations d @ [row]
         \<and> av_handsScore row = Math_round (r1 * 10 + 85)
         \<and> av_faceScore row = Math_round (r2 * 10 + 88)
         \<and> av_bodyScore row = Math_round (r3 * 10 + 82)
         \<and> av_overallScore row = Math_round (real_of_int (av_handsScore row + av_faceScore row
              + av_bodyScore row) / 3)
         \<and> ar_overallScore resp = av_overallScore row
         \<and> av_issues row = stringify (JArr (map JStr (anatomy_issues (av_overallScore row))))
         \<and> h_quality (ar_hands resp) = av_handsScore row
         \<and> h_issues (ar_hands resp)
             = (if av_handsScore row < 90 then [''Finger positioning''] else [])"
proof -
  from assms(1) obtain u where u: "b ''imageUrl'' = Some u" using truthy_Some by blast
  with assms(1) have t: "truthy (Some u)" by simp
  show ?thesis
    unfolding validate_anatomy_def using u t assms(2)
    by (simp add: Let_def insert_validation_def)
qed

text \<open>
  C5. For a successful validation: the overall score, in the response and in the row, is
  the mean of the three dimension scores rounded to the nearest integer; the verdict is
  the excellent one exactly when the overall score is at least 90 and the good one
  otherwise; the serialised issue list of the row is non-empty exactly when the overall
  score is below 85; and the status of hands, face and body and the issues of the hands
  depend on that dimension's own score against 90.
\<close>

theorem validate_anatomy_verdicts:
  assumes "validate_anatomy stringify b validationId r1 r2 r3 now d = (OK resp, d')"
  shows "\<exists>row issues. anatomy_validations d' = anatomy_validations d @ [row]
       \<and> h_quality (ar_hands resp) = av_handsScore row
       \<and> f_symmetry (ar_face resp) = av_faceScore row
       \<and> ar_overallScore resp = av_overallScore row
       \<and> av_overallScore row = Math_round (real_of_int (av_handsScore row + av_faceScore row
            + av_bodyScore row) / 3)
       \<and> \<bar>real_of_int (av_overallScore row) - real_of_int (av_handsScore row + av_faceScore row
            + av_bodyScore row) / 3\<bar> \<le> 1 / 2
       \<and> (ar_verdict resp = ''Excellent anatomy! '' @ check_mark \<longleftrightarrow> 90 \<le> ar_overallScore resp)
       \<and> (ar_verdict resp = ''Good anatomy. Minor adjustments possible.''
            \<longleftrightarrow> ar_overallScore resp < 90)
       \<and> av_issues row = stringify (JArr (map JStr issues))
       \<and> (issues \<noteq> [] \<longleftrightarrow> ar_overallScore resp < 85)
       \<and> (ar_overallScore resp < 85 \<longrightarrow> issues = [''Consider hand pose'', ''Adjust shoulder width''])
       \<and> h_status (ar_hands resp) = (if 90 \<le> av_handsScore row then ''Perfect'' else ''Good'')
       \<and> h_issues (ar_hands resp) = (if av_handsScore row < 90 then [''Finger positioning''] else [])
       \<and> f_status (ar_face resp) = (if 90 \<le> av_faceScore row then ''Symmetric'' else ''Acceptable'')
       \<and> b_status (ar_body resp) = (if 90 \<le> av_bodyScore row then ''Perfect'' else ''Good'')"
proof -
  define h where "h = Math_round (r1 * 10 + 85)"
  define f where "f = Math_round (r2 * 10 + 88)"
  define bd where "bd = Math_round (r3 * 10 + 82)"
  define ov where "ov = Math_round (real_of_int (h + f + bd) / 3)"
  have near: "\<bar>real_of_int ov - real_of_int (h + f + bd) / 3\<bar> \<le> 1 / 2"
    unfolding ov_def by (rule Math_round_near)
  have "check_mark \<noteq> []" by (simp add: check_mark_def)
  then have neq: "''Excellent anatomy! '' @ check_mark \<noteq> ''Good anatomy. Minor adjustments possible.''"
    by simp
  from assms obtain u where u: "b ''imageUrl'' = Some u" and t: "truthy (Some u)"
    and fresh: "validationId \<notin> set (map av_id (anatomy_validations d))"
    unfolding validate_anatomy_def
    by (auto simp: Let_def insert_validation_def split: option.splits if_splits sum.splits)
  from assms u t fresh
  have resp: "resp = \<lparr>ar_id = validationId, ar_imageUrl = u,
         ar_hands = \<lparr>h_detected = True, h_quality = h,
           h_issues = (if h < 90 then [''Finger positioning''] else []),
           h_status = (if h \<ge> 90 then ''Perfect'' else ''Good'')\<rparr>,
         ar_face = \<lparr>f_detected = True, f_symmetry = f, f_proportions = ''Correct'',
           f_status = (if f \<ge> 90 then ''Symmetric'' else ''Acceptable'')\<rparr>,
         ar_body = \<lparr>b_detected = True, b_posture = ''Natural'', b_proportions = ''Proportional'',
           b_status = (if bd \<ge> 90 then ''Perfect'' else ''Good'')\<rparr>,
         ar_overallScore = ov,
         ar_verdict = (if ov \<ge> 90 then ''Excellent anatomy! '' @ check_mark
                       else ''Good anatomy. Minor adjustments possible.''),
         ar_message = check_mark @ '' Validation complete: '' @ show_int ov @ ''/100''\<rparr>"
    and d': "anatomy_validations d' = anatomy_validations d @
        [\<lparr>av_id = validationId, av_imageUrl = u, av_handsScore = h, av_faceScore = f,
          av_bodyScore = bd, av_overallScore = ov,
          av_issues = stringify (JArr (map JStr (anatomy_issues ov))), av_createdAt = now\<rparr>]"
    unfolding validate_anatomy_def h_def f_def bd_def ov_def
    by (auto simp: Let_def insert_validation_def)
  show ?thesis
    apply (rule exI [where x = "\<lparr>av_id = validationId, av_imageUrl = u, av_handsScore = h,
          av_faceScore = f, av_bodyScore = bd, av_overallScore = ov,
          av_issues = stringify (JArr (map JStr (anatomy_issues ov))), av_createdAt = now\<rparr>"])
    apply (rule exI [where x = "anatomy_issues ov"])
    using near neq ov_def unfolding resp d'
    by (simp add: anatomy_issues_def)
qed

theorem validate_anatomy_verdicts_witness:
  "validate_anatomy sample_stringify image_body ''val-1'' (1 / 2) (1 / 2) (1 / 2) 1000 empty_db
     = (OK anatomy_response1, empty_db\<lparr>anatomy_validations := [validation_row1]\<rparr>)
   \<and> ar_overallScore anatomy_response1 = Math_round (real_of_int (90 + 93 + 87) / 3)
   \<and> ar_verdict anatomy_response1 = ''Excellent anatomy! '' @ check_mark
   \<and> av_issues validation_row1 = sample_stringify (JArr [])
   \<and> h_status (ar_hands anatomy_response1) = ''Perfect''
   \<and> f_status (ar_face anatomy_response1) = ''Symmetric''
   \<and> b_status (ar_body anatomy_response1) = ''Good''"
proof -
  from validate_anatomy_verdicts [OF validate_anatomy_example]
  obtain row issues where
    "anatomy_validations (empty_db\<lparr>anatomy_validations := [validation_row1]\<rparr>)
       = anatomy_validations empty_db @ [row]"
    "ar_overallScore anatomy_response1 = av_overallScore row"
    "av_overallScore row = Math_round (real_of_int (av_handsScore row + av_faceScore row
            + av_bodyScore row) / 3)"
    "ar_verdict anatomy_response1 = ''Excellent anatomy! '' @ check_mark
       \<longleftrightarrow> 90 \<le> ar_overallScore anatomy_response1"
    "av_issues row = sample_stringify (JArr (map JStr issues))"
    "issues \<noteq> [] \<longleftrightarrow> ar_overallScore anatomy_response1 < 85"
    "h_status (ar_hands anatomy_response1) = (if 90 \<le> av_handsScore row then ''Perfect'' else ''Good'')"
    "f_status (ar_face anatomy_response1) = (if 90 \<le> av_faceScore row then ''Symmetric'' else ''Acceptable'')"
    "b_status (ar_body anatomy_response1) = (if 90 \<le> av_bodyScore row then ''Perfect'' else ''Good'')"
    by blast
  moreover from this(1) have "row = validation_row1" by (simp add: empty_db_def)
  moreover have "ar_overallScore anatomy_response1 = 90" by (simp add: anatomy_response1_def)
  ultimately show ?thesis
    using validate_anatomy_example by (simp add: validation_row1_def)
qed

lemma show_nat_85: "show_nat 85 = ''85''"
  by (simp add: show_nat.simps digit_def)

lemma validate_anatomy_example0:
  "validate_anatomy sample_stringify image_body ''val-1'' 0 0 0 1000 empty_db
     = (OK anatomy_response0, empty_db\<lparr>anatomy_validations := [validation_row0]\<rparr>)"
  by (simp add: validate_anatomy_def image_body_def empty_db_def insert_validation_def
      Let_def Math_round_def anatomy_issues_def anatomy_response0_def validation_row0_def
      show_int_def show_nat_85)

text \<open>
  C9, as the code has it. With every draw in \<open>[0, 1)\<close>, a validation request with an image
  URL and a fresh identifier succeeds with hands in \<open>[85, 95]\<close>, face in \<open>[88, 98]\<close> and
  body in \<open>[82, 92]\<close>; the rounded overall score is at least 85 (and at most 95), so the
  issue list of the \<open>overall < 85\<close> branch is empty and the row holds the serialised empty
  list. That list is persisted only. The response has no aggregate issue list; the one
  issue list it returns is that of the hands, which is ['Finger positioning'] exactly when
  the hands score is below 90.
\<close>

theorem validate_anatomy_no_issues:
  assumes "truthy (b ''imageUrl'')" and "validationId \<notin> set (map av_id (anatomy_validations d))"
      and "0 \<le> r1 \<and> r1 < 1" and "0 \<le> r2 \<and> r2 < 1" and "0 \<le> r3 \<and> r3 < 1"
  shows "\<exists>resp d' row. validate_anatomy stringify b validationId r1 r2 r3 now d = (OK resp, d')
       \<and> anatomy_validations d' = anatomy_validations d @ [row]
       \<and> 85 \<le> av_handsScore row \<and> av_handsScore row \<le> 95
       \<and> 88 \<le> av_faceScore row \<and> av_faceScore row \<le> 98
       \<and> 82 \<le> av_bodyScore row \<and> av_bodyScore row \<le> 92
       \<and> ar_overallScore resp = av_overallScore row
       \<and> 85 \<le> ar_overallScore resp \<and> ar_overallScore resp \<le> 95
       \<and> anatomy_issues (ar_overallScore resp) = []
       \<and> av_issues row = stringify (JArr [])
       \<and> h_quality (ar_hands resp) = av_handsScore row
       \<and> (h_issues (ar_hands resp) = [''Finger positioning''] \<longleftrightarrow> h_quality (ar_hands resp) < 90)
       \<and> (h_issues (ar_hands resp) = [] \<longleftrightarrow> 90 \<le> h_quality (ar_hands resp))"
proof -
  from validate_anatomy_success [where b = b and stringify = stringify and ?r1.0 = r1
      and ?r2.0 = r2 and ?r3.0 = r3 and now = now, OF assms(1,2)]
  obtain resp d' row where
        ok: "validate_anatomy stringify b validationId r1 r2 r3 now d = (OK resp, d')"
    and d': "anatomy_validations d' = anatomy_validations d @ [row]"
    and h: "av_handsScore row = Math_round (r1 * 10 + 85)"
    and f: "av_faceScore row = Math_round (r2 * 10 + 88)"
    and bd: "av_bodyScore row = Math_round (r3 * 10 + 82)"
    and ov: "av_overallScore row = Math_round (real_of_int (av_handsScore row + av_faceScore row
              + av_bodyScore row) / 3)"
    and ro: "ar_overallScore resp = av_overallScore row"
    and iss: "av_issues row = stringify (JArr (map JStr (anatomy_issues (av_overallScore row))))"
    and hq: "h_quality (ar_hands resp) = av_handsScore row"
    and hi: "h_issues (ar_hands resp)
             = (if av_handsScore row < 90 then [''Finger positioning''] else [])"
    by blast
  have b1: "85 \<le> av_handsScore row \<and> av_handsScore row \<le> 95"
    using Math_round_draw [OF assms(3), of 10 85] h by simp
  have b2: "88 \<le> av_faceScore row \<and> av_faceScore row \<le> 98"
    using Math_round_draw [OF assms(4), of 10 88] f by simp
  have b3: "82 \<le> av_bodyScore row \<and> av_bodyScore row \<le> 92"
    using Math_round_draw [OF assms(5), of 10 82] bd by simp
  define s where "s = av_handsScore row + av_faceScore row + av_bodyScore row"
  have s: "255 \<le> s \<and> s \<le> 285" unfolding s_def using b1 b2 b3 by linarith
  have "real_of_int 85 \<le> real_of_int s / 3 \<and> real_of_int s / 3 \<le> real_of_int 95"
    using s by simp
  then have "85 \<le> Math_round (real_of_int s / 3) \<and> Math_round (real_of_int s / 3) \<le> 95"
    using Math_round_range by blast
  then have b4: "85 \<le> av_overallScore row \<and> av_overallScore row \<le> 95"
    using ov unfolding s_def by simp
  then have e: "anatomy_issues (av_overallScore row) = []" by (simp add: anatomy_issues_def)
  have hands: "(h_issues (ar_hands resp) = [''Finger positioning''] \<longleftrightarrow> h_quality (ar_hands resp) < 90)
      \<and> (h_issues (ar_hands resp) = [] \<longleftrightarrow> 90 \<le> h_quality (ar_hands resp))"
    unfolding hi hq by simp
  from ok d' b1 b2 b3 b4 ro e iss hq hands show ?thesis
    by (intro exI [of _ resp] exI [of _ d'] exI [of _ row]) simp
qed

theorem validate_anatomy_no_issues_witness:
  "truthy (image_body ''imageUrl'') \<and> ''val-1'' \<notin> set (map av_id (anatomy_validations empty_db))
   \<and> validate_anatomy sample_stringify image_body ''val-1'' (1 / 2) (1 / 2) (1 / 2) 1000 empty_db
       = (OK anatomy_response1, empty_db\<lparr>anatomy_validations := [validation_row1]\<rparr>)
   \<and> 85 \<le> ar_overallScore anatomy_response1
   \<and> av_issues validation_row1 = ''[]''
   \<and> h_issues (ar_hands anatomy_response1) = []"
proof -
  have h1: "truthy (image_body ''imageUrl'')" by (simp add: image_body_def)
  have h2: "''val-1'' \<notin> set (map av_id (anatomy_validations empty_db))" by (simp add: empty_db_def)
  have h3: "0 \<le> (1 / 2 :: real) \<and> (1 / 2 :: real) < 1" by simp
  from validate_anatomy_no_issues [where b = image_body and now = 1000
      and stringify = sample_stringify, OF h1 h2 h3 h3 h3]
    h1 h2 validate_anatomy_example
  show ?thesis by (auto simp: validation_row1_def anatomy_response1_def)
qed

text \<open>
  C9 as stated fails for the returned list: with the draws 0 the hands score is 85 and the
  response returns the issue list ['Finger positioning'], while the persisted list is empty.
\<close>

theorem validate_anatomy_returned_issues_counterexample:
  "validate_anatomy sample_stringify image_body ''val-1'' 0 0 0 1000 empty_db
     = (OK anatomy_response0, empty_db\<lparr>anatomy_validations := [validation_row0]\<rparr>)
   \<and> h_issues (ar_hands anatomy_response0) = [''Finger positioning'']
   \<and> av_issues validation_row0 = ''[]''"
  using validate_anatomy_example0 by (simp add: anatomy_response0_def validation_row0_def)

section \<open>Validation of creation requests\<close>

lemma deploy_remotion_default_duration:
  assumes "b ''duration'' = None" and "jobId \<notin> set (map rd_id (remotion_deployments d))"
  shows "deploy_remotion b jobId uuid2 now d =
     (OK \<lparr>dr_jobId = jobId, dr_status = ''deploying'', dr_progress = 0, dr_duration = JNum 15,
          dr_effects = dflt (b ''effects'') (JStr ''None''),
          dr_vercelUrl = ''https://nexus-apex-video-'' @ take 8 jobId @ ''.vercel.app'',
          dr_videoPath = ''/videos/output_'' @ jobId @ ''.mp4'', dr_eta = ''3-5 minutes'',
          dr_message = check_mark @ '' Remotion video deployment started''\<rparr>,
      d\<lparr>remotion_deployments := remotion_deployments d @
          [\<lparr>rd_id = jobId,
            rd_configId = js_or (optional_id (b ''jsonConfig'')) (JStr uuid2),
            rd_status = ''deploying'', rd_progress = 0, rd_vercelUrl = None,
            rd_videoPath = None, rd_duration = JNum 15,
            rd_effects = dflt (b ''effects'') (JStr ''None''), rd_createdAt = now\<rparr>]\<rparr>)"
  using assms by (simp add: deploy_remotion_def dflt_def insert_deployment_def Let_def)

lemma deploy_remotion_400:
  "fst (deploy_remotion b jobId uuid2 now d) = Fail 400 m \<longleftrightarrow>
     m = ''duration is required'' \<and> (\<exists>v. b ''duration'' = Some v \<and> \<not> truthy (Some v))"
  by (cases "b ''duration''")
     (auto simp: deploy_remotion_def dflt_def insert_deployment_def Let_def split: sum.splits)

lemma train_lora_missing:
  "\<not> truthy (b ''characterName'') \<Longrightarrow>
   train_lora b jobId now d = (Fail 400 ''characterName is required'', d)"
  by (cases "b ''characterName''") (simp_all add: train_lora_def Let_def)

lemma generate_json_missing:
  "\<not> truthy (b ''character'') \<or> \<not> truthy (b ''environment'') \<or> \<not> truthy (b ''lighting'') \<Longrightarrow>
   generate_json stringify b configId now isoNow d
     = (Fail 400 ''character, environment, and lighting are required'', d)"
  by (simp add: generate_json_def)

lemma score_image_missing:
  "\<not> truthy (b ''imageUrl'') \<Longrightarrow>
   score_image b scoreId r1 r2 r3 r4 r5 now d = (Fail 400 ''imageUrl is required'', d)"
  by (cases "b ''imageUrl''") (simp_all add: score_image_def)

lemma validate_anatomy_missing:
  "\<not> truthy (b ''imageUrl'') \<Longrightarrow>
   validate_anatomy stringify b validationId r1 r2 r3 now d = (Fail 400 ''imageUrl is required'', d)"
  by (cases "b ''imageUrl''") (simp_all add: validate_anatomy_def)

lemma deploy_remotion_example:
  "deploy_remotion Map.empty ''0123456789abcdef'' ''cfg-2'' 1000 empty_db
     = (OK deploy_response2, empty_db\<lparr>remotion_deployments := [deployment_row2]\<rparr>)"
  by (simp add: deploy_remotion_def dflt_def js_or_def insert_deployment_def Let_def
      empty_db_def deploy_response2_def deployment_row2_def)

text \<open>
  C3, at the failing input. A deployment request whose body has no \<open>duration\<close> is not
  answered with 400: the destructuring default 15 is applied before the check, so with a
  fresh identifier the request succeeds with \<open>duration = 15\<close> and a row is inserted. The
  400 is reserved for a \<open>duration\<close> that is present and falsy.
\<close>

theorem deploy_remotion_missing_duration:
  assumes "b ''duration'' = None" and "jobId \<notin> set (map rd_id (remotion_deployments d))"
  shows "\<exists>resp d' row. deploy_remotion b jobId uuid2 now d = (OK resp, d')
       \<and> dr_duration resp = JNum 15
       \<and> remotion_deployments d' = remotion_deployments d @ [row]
       \<and> rd_id row = jobId \<and> rd_duration row = JNum 15
       \<and> (\<forall>m. fst (deploy_remotion b jobId uuid2 now d) \<noteq> Fail 400 m)"
  unfolding deploy_remotion_default_duration [where b = b, OF assms] by simp

theorem deploy_remotion_missing_duration_witness:
  "Map.empty ''duration'' = (None :: json option)
   \<and> ''0123456789abcdef'' \<notin> set (map rd_id (remotion_deployments empty_db))
   \<and> deploy_remotion Map.empty ''0123456789abcdef'' ''cfg-2'' 1000 empty_db
       = (OK deploy_response2, empty_db\<lparr>remotion_deployments := [deployment_row2]\<rparr>)
   \<and> dr_duration deploy_response2 = JNum 15"
proof -
  have h1: "Map.empty ''duration'' = (None :: json option)" by simp
  have h2: "''0123456789abcdef'' \<notin> set (map rd_id (remotion_deployments empty_db))"
    by (simp add: empty_db_def)
  from deploy_remotion_missing_duration [where b = Map.empty and ?uuid2.0 = "''cfg-2''"
      and now = 1000, OF h1 h2] h1 h2 deploy_remotion_example
  show ?thesis by auto
qed

text \<open>
  C6, route by route. A missing (or falsy) required field is answered with 400 and leaves
  the store as it was by train-lora, generate-json, score-image and validate-anatomy.
  deploy-remotion does not: without \<open>duration\<close> and with a fresh identifier it answers
  200 and the count of \<open>remotion_deployments\<close> grows by one.
\<close>

theorem creation_missing_field:
  "(\<not> truthy (b ''characterName'') \<longrightarrow>
      train_lora b uuid now d = (Fail 400 ''characterName is required'', d))
   \<and> (\<not> truthy (b ''character'') \<or> \<not> truthy (b ''environment'') \<or> \<not> truthy (b ''lighting'') \<longrightarrow>
      generate_json stringify b uuid now isoNow d
        = (Fail 400 ''character, environment, and lighting are required'', d))
   \<and> (\<not> truthy (b ''imageUrl'') \<longrightarrow>
      score_image b uuid r1 r2 r3 r4 r5 now d = (Fail 400 ''imageUrl is required'', d))
   \<and> (\<not> truthy (b ''imageUrl'') \<longrightarrow>
      validate_anatomy stringify b uuid r1 r2 r3 now d = (Fail 400 ''imageUrl is required'', d))
   \<and> (b ''duration'' = None \<and> uuid \<notin> set (map rd_id (remotion_deployments d)) \<longrightarrow>
      (\<exists>resp d'. deploy_remotion b uuid uuid2 now d = (OK resp, d')
         \<and> length (remotion_deployments d') = Suc (length (remotion_deployments d))
         \<and> counts d' \<noteq> counts d))"
proof -
  have "b ''duration'' = None \<and> uuid \<notin> set (map rd_id (remotion_deployments d)) \<longrightarrow>
      (\<exists>resp d'. deploy_remotion b uuid uuid2 now d = (OK resp, d')
         \<and> length (remotion_deployments d') = Suc (length (remotion_deployments d))
         \<and> counts d' \<noteq> counts d)"
    by (simp add: deploy_remotion_default_duration counts_def)
  moreover note train_lora_missing [of b uuid now d]
    generate_json_missing [of b stringify uuid now isoNow d]
    score_image_missing [of b uuid r1 r2 r3 r4 r5 now d]
    validate_anatomy_missing [of b stringify uuid r1 r2 r3 now d]
  ultimately show ?thesis by blast
qed

theorem creation_missing_field_witness:
  "\<not> truthy (Map.empty ''characterName'')
   \<and> train_lora Map.empty ''0123456789abcdef'' 1000 empty_db
       = (Fail 400 ''characterName is required'', empty_db)
   \<and> generate_json sample_stringify Map.empty ''0123456789abcdef'' 1000 [] empty_db
       = (Fail 400 ''character, environment, and lighting are required'', empty_db)
   \<and> score_image Map.empty ''0123456789abcdef'' 0 0 0 0 0 1000 empty_db
       = (Fail 400 ''imageUrl is required'', empty_db)
   \<and> validate_anatomy sample_stringify Map.empty ''0123456789abcdef'' 0 0 0 1000 empty_db
       = (Fail 400 ''imageUrl is required'', empty_db)
   \<and> deploy_remotion Map.empty ''0123456789abcdef'' ''cfg-2'' 1000 empty_db
       = (OK deploy_response2, empty_db\<lparr>remotion_deployments := [deployment_row2]\<rparr>)
   \<and> counts (empty_db\<lparr>remotion_deployments := [deployment_row2]\<rparr>) \<noteq> counts empty_db"
proof -
  have h2: "''0123456789abcdef'' \<notin> set (map rd_id (remotion_deployments empty_db))"
    by (simp add: empty_db_def)
  from creation_missing_field [where b = Map.empty and uuid = "''0123456789abcdef''"
      and d = empty_db and now = 1000 and ?r1.0 = 0 and ?r2.0 = 0 and ?r3.0 = 0 and ?r4.0 = 0
      and ?r5.0 = 0 and stringify = sample_stringify and isoNow = "[]" and ?uuid2.0 = "''cfg-2''"]
    h2 deploy_remotion_example
  show ?thesis by auto
qed

section \<open>Statistics\<close>

lemma train_lora_ok:
  assumes "train_lora b u t d = (r, d')" and "is_OK r"
  shows "length (lora_trainings d') = Suc (length (lora_trainings d))
       \<and> users d' = users d \<and> json_configs d' = json_configs d
       \<and> image_scores d' = image_scores d \<and> anatomy_validations d' = anatomy_validations d
       \<and> remotion_deployments d' = remotion_deployments d"
  using assms unfolding train_lora_def
  by (auto simp: Let_def insert_lora_def is_OK_def
      split: option.splits if_splits sum.splits json.splits)

lemma generate_json_ok:
  assumes "generate_json st b u t isoNow d = (r, d')" and "is_OK r"
  shows "length (json_configs d') = Suc (length (json_configs d))
       \<and> users d' = users d \<and> lora_trainings d' = lora_trainings d
       \<and> image_scores d' = image_scores d \<and> anatomy_validations d' = anatomy_validations d
       \<and> remotion_deployments d' = remotion_deployments d"
  using assms unfolding generate_json_def
  by (auto simp: Let_def insert_config_def is_OK_def split: if_splits sum.splits)

lemma score_image_ok:
  assumes "score_image b u r1 r2 r3 r4 r5 t d = (r, d')" and "is_OK r"
  shows "length (image_scores d') = Suc (length (image_scores d))
       \<and> users d' = users d \<and> lora_trainings d' = lora_trainings d
       \<and> json_configs d' = json_configs d \<and> anatomy_validations d' = anatomy_validations d
       \<and> remotion_deployments d' = remotion_deployments d"
  using assms unfolding score_image_def
  by (auto simp: Let_def insert_score_def is_OK_def split: option.splits if_splits sum.splits)

lemma validate_anatomy_ok:
  assumes "validate_anatomy st b u r1 r2 r3 t d = (r, d')" and "is_OK r"
  shows "length (anatomy_validations d') = Suc (length (anatomy_validations d))
       \<and> users d' = users d \<and> lora_trainings d' = lora_trainings d
       \<and> json_configs d' = json_configs d \<and> image_scores d' = image_scores d
       \<and> remotion_deployments d' = remotion_deployments d"
  using assms unfolding validate_anatomy_def
  by (auto simp: Let_def insert_validation_def is_OK_def split: option.splits if_splits sum.splits)

lemma deploy_remotion_ok:
  assumes "deploy_remotion b u u2 t d = (r, d')" and "is_OK r"
  shows "length (remotion_deployments d') = Suc (length (remotion_deployments d))
       \<and> users d' = users d \<and> lora_trainings d' = lora_trainings d
       \<and> json_configs d' = json_configs d \<and> image_scores d' = image_scores d
       \<and> anatomy_validations d' = anatomy_validations d"
  using assms unfolding deploy_remotion_def
  by (auto simp: Let_def insert_deployment_def is_OK_def split: if_splits sum.splits)

lemma perform_ok:
  assumes "perform st c d = (True, d')"
  shows "length (users d') = length (users d)
       \<and> length (lora_trainings d') = length (lora_trainings d) + tally [c] ''/api/train-lora''
       \<and> length (json_configs d') = length (json_configs d) + tally [c] ''/api/generate-json''
       \<and> length (image_scores d') = length (image_scores d) + tally [c] ''/api/score-image''
       \<and> length (anatomy_validations d')
           = length (anatomy_validations d) + tally [c] ''/api/validate-anatomy''
       \<and> length (remotion_deployments d')
           = length (remotion_deployments d) + tally [c] ''/api/deploy-remotion''"
proof (cases c)
  case (TrainLora b u t)
  with assms obtain r where "train_lora b u t d = (r, d')" "is_OK r"
    by (auto split: prod.splits)
  from train_lora_ok [OF this] TrainLora show ?thesis by (simp add: tally_def)
next
  case (GenerateJson b u t isoNow)
  with assms obtain r where "generate_json st b u t isoNow d = (r, d')" "is_OK r"
    by (auto split: prod.splits)
  from generate_json_ok [OF this] GenerateJson show ?thesis by (simp add: tally_def)
next
  case (ScoreImage b u r1 r2 r3 r4 r5 t)
  with assms obtain r where "score_image b u r1 r2 r3 r4 r5 t d = (r, d')" "is_OK r"
    by (auto split: prod.splits)
  from score_image_ok [OF this] ScoreImage show ?thesis by (simp add: tally_def)
next
  case (ValidateAnatomy b u r1 r2 r3 t)
  with assms obtain r where "validate_anatomy st b u r1 r2 r3 t d = (r, d')" "is_OK r"
    by (auto split: prod.splits)
  from validate_anatomy_ok [OF this] ValidateAnatomy show ?thesis by (simp add: tally_def)
next
  case (DeployRemotion b u u2 t)
  with assms obtain r where "deploy_remotion b u u2 t d = (r, d')" "is_OK r"
    by (auto split: prod.splits)
  from deploy_remotion_ok [OF this] DeployRemotion show ?thesis by (simp add: tally_def)
qed

lemma tally_Cons: "tally (c # cs) p = tally [c] p + tally cs p"
  by (simp add: tally_def)

lemma run_ok:
  "run st cs d = (True, d') \<Longrightarrow>
     length (users d') = length (users d)
   \<and> length (lora_trainings d') = length (lora_trainings d) + tally cs ''/api/train-lora''
   \<and> length (json_configs d') = length (json_configs d) + tally cs ''/api/generate-json''
   \<and> length (image_scores d') = length (image_scores d) + tally cs ''/api/score-image''
   \<and> length (anatomy_validations d')
       = length (anatomy_validations d) + tally cs ''/api/validate-anatomy''
   \<and> length (remotion_deployments d')
       = length (remotion_deployments d) + tally cs ''/api/deploy-remotion''"
proof (induction cs arbitrary: d)
  case Nil
  then show ?case by (simp add: tally_def)
next
  case (Cons c cs)
  from Cons.prems obtain d1 where p: "perform st c d = (True, d1)" and r: "run st cs d1 = (True, d')"
    by (auto split: prod.splits)
  from perform_ok [OF p] Cons.IH [OF r] show ?case
    by (simp add: tally_Cons [of c cs])
qed

lemma five_calls_ok: "fst (run sample_stringify five_calls empty_db)"
  by (simp add: five_calls_def train_lora_def generate_json_def score_image_def
      validate_anatomy_def deploy_remotion_def insert_lora_def insert_config_def
      insert_score_def insert_validation_def insert_deployment_def empty_db_def
      config_body_def image_body_def dflt_def js_or_def is_OK_def Let_def)

lemma five_calls_tally:
  "tally five_calls ''/api/train-lora'' = 1 \<and> tally five_calls ''/api/generate-json'' = 1
   \<and> tally five_calls ''/api/score-image'' = 1 \<and> tally five_calls ''/api/validate-anatomy'' = 1
   \<and> tally five_calls ''/api/deploy-remotion'' = 1"
  by (simp add: tally_def five_calls_def)

text \<open>
  C7, on the code. After a sequence of creation calls that were all answered with 200,
  started on the empty store, the statistics report four counts, each the number of calls
  made against its route: train-lora, generate-json, score-image and deploy-remotion.
  The anatomy validations, whose table holds one row per call of validate-anatomy, have no
  count in the response, and the response does not depend on that table.
\<close>

theorem stats_after_successful_calls:
  assumes "run st cs empty_db = (True, d)"
  shows "stats d = OK \<lparr>loraTrainings = tally cs ''/api/train-lora'',
             jsonConfigs = tally cs ''/api/generate-json'',
             imageScores = tally cs ''/api/score-image'',
             remotionDeployments = tally cs ''/api/deploy-remotion''\<rparr>
       \<and> length (anatomy_validations d) = tally cs ''/api/validate-anatomy''
       \<and> stats (d\<lparr>anatomy_validations := []\<rparr>) = stats d"
  using run_ok [OF assms] by (simp add: stats_def empty_db_def)

theorem stats_after_successful_calls_witness:
  "run sample_stringify five_calls empty_db = (True, snd (run sample_stringify five_calls empty_db))
   \<and> stats (snd (run sample_stringify five_calls empty_db))
       = OK \<lparr>loraTrainings = 1, jsonConfigs = 1, imageScores = 1, remotionDeployments = 1\<rparr>
   \<and> length (anatomy_validations (snd (run sample_stringify five_calls empty_db))) = 1
   \<and> run sample_stringify [ValidateAnatomy image_body ''val-1'' (1 / 2) (1 / 2) (1 / 2) 1000] empty_db
       = (True, empty_db\<lparr>anatomy_validations := [validation_row1]\<rparr>)
   \<and> stats (empty_db\<lparr>anatomy_validations := [validation_row1]\<rparr>)
       = OK \<lparr>loraTrainings = 0, jsonConfigs = 0, imageScores = 0, remotionDeployments = 0\<rparr>
   \<and> length (anatomy_validations (empty_db\<lparr>anatomy_validations := [validation_row1]\<rparr>)) = 1"
proof -
  have five: "run sample_stringify five_calls empty_db
      = (True, snd (run sample_stringify five_calls empty_db))"
    using five_calls_ok by (simp add: prod_eq_iff)
  have one: "run sample_stringify
      [ValidateAnatomy image_body ''val-1'' (1 / 2) (1 / 2) (1 / 2) 1000] empty_db
     = (True, empty_db\<lparr>anatomy_validations := [validation_row1]\<rparr>)"
    by (simp add: validate_anatomy_example is_OK_def)
  from stats_after_successful_calls [OF five] stats_after_successful_calls [OF one]
    five one five_calls_tally
  show ?thesis by (simp add: tally_def)
qed

section \<open>The list of recent scores\<close>

lemma get_scores_eq:
  "get_scores d = OK \<lparr>sc_scores = recent_scores d, sc_total = min 10 (length (image_scores d))\<rparr>"
  by (simp add: get_scores_def recent_scores_def Let_def min_def)

lemma recent_scores_sorted:
  "sorted_wrt (\<lambda>r r'. is_createdAt r \<ge> is_createdAt r') (recent_scores d)"
proof -
  let ?k = "\<lambda>r. - is_createdAt r"
  let ?ys = "sort_key ?k (image_scores d)"
  have "sorted (map ?k (take 10 ?ys))"
    unfolding take_map [symmetric] by (rule sorted_wrt_take) simp
  then have "sorted_wrt (\<lambda>r r'. ?k r \<le> ?k r') (take 10 ?ys)"
    by (simp add: sorted_wrt_map)
  then show ?thesis by (simp add: recent_scores_def)
qed

lemma recent_scores_newest:
  assumes "r \<in> set (recent_scores d)"
      and "r' \<in># mset (image_scores d) - mset (recent_scores d)"
  shows "is_createdAt r' \<le> is_createdAt r"
proof -
  let ?k = "\<lambda>r. - is_createdAt r"
  let ?ys = "sort_key ?k (image_scores d)"
  have split: "take 10 ?ys @ drop 10 ?ys = ?ys" by simp
  have "mset (image_scores d) = mset (take 10 ?ys) + mset (drop 10 ?ys)"
    by (metis split mset_append mset_sort)
  then have rest: "mset (image_scores d) - mset (recent_scores d) = mset (drop 10 ?ys)"
    by (simp add: recent_scores_def)
  have "sorted (map ?k (take 10 ?ys @ drop 10 ?ys))" by simp
  then have "\<forall>x \<in> set (take 10 ?ys). \<forall>y \<in> set (drop 10 ?ys). ?k x \<le> ?k y"
    unfolding map_append sorted_append by simp
  moreover have "r \<in> set (take 10 ?ys)" using assms(1) by (simp add: recent_scores_def)
  moreover have "r' \<in> set (drop 10 ?ys)" using assms(2) unfolding rest by simp
  ultimately show ?thesis by fastforce
qed

lemma recent_scores_sub: "mset (recent_scores d) \<subseteq># mset (image_scores d)"
proof -
  let ?ys = "sort_key (\<lambda>r. - is_createdAt r) (image_scores d)"
  have "mset (take 10 ?ys) \<subseteq># mset ?ys"
    by (metis append_take_drop_id mset_append mset_subset_eq_add_left)
  then show ?thesis by (simp add: recent_scores_def)
qed

text \<open>
  C8, as the code has it. The response lists rows of the store, each at most as often as
  the store holds it, ordered by creation time with the newest first, ten of them or all
  when the store has fewer; every row left out is at most as recent as every row listed.
  Its \<open>total\<close> is the number of rows listed, \<open>min(10, count)\<close>, which is the count of the
  store only while the store holds at most ten score records.
\<close>

theorem get_scores_recent:
  "\<exists>rs. get_scores d = OK \<lparr>sc_scores = rs, sc_total = length rs\<rparr>
     \<and> length rs = min 10 (length (image_scores d))
     \<and> mset rs \<subseteq># mset (image_scores d)
     \<and> sorted_wrt (\<lambda>r r'. is_createdAt r \<ge> is_createdAt r') rs
     \<and> (\<forall>r \<in> set rs. \<forall>r' \<in># mset (image_scores d) - mset rs. is_createdAt r' \<le> is_createdAt r)
     \<and> (length (image_scores d) \<le> 10 \<longrightarrow> length rs = length (image_scores d))"
proof -
  have "length (recent_scores d) = min 10 (length (image_scores d))"
    by (simp add: recent_scores_def min_def)
  then show ?thesis
    using get_scores_eq [of d] recent_scores_sub [of d] recent_scores_sorted [of d]
      recent_scores_newest [of _ d]
    by (intro exI [of _ "recent_scores d"]) auto
qed

lemma recent_three: "recent_scores three_scores = [score_at 3, score_at 2, score_at 1]"
  by (simp add: recent_scores_def three_scores_def empty_db_def score_at_def)

theorem get_scores_recent_witness:
  "get_scores three_scores
     = OK \<lparr>sc_scores = [score_at 3, score_at 2, score_at 1], sc_total = 3\<rparr>
   \<and> length (image_scores three_scores) \<le> 10
   \<and> is_createdAt (score_at 3) \<ge> is_createdAt (score_at 2)
   \<and> is_createdAt (score_at 2) \<ge> is_createdAt (score_at 1)"
proof -
  from get_scores_recent [of three_scores]
  obtain rs where "get_scores three_scores = OK \<lparr>sc_scores = rs, sc_total = length rs\<rparr>"
    and "sorted_wrt (\<lambda>r r'. is_createdAt r \<ge> is_createdAt r') rs"
    and "length (image_scores three_scores) \<le> 10 \<longrightarrow> length rs = length (image_scores three_scores)"
    by blast
  moreover have "length (image_scores three_scores) = 3"
    by (simp add: three_scores_def)
  moreover have "get_scores three_scores
      = OK \<lparr>sc_scores = [score_at 3, score_at 2, score_at 1], sc_total = 3\<rparr>"
    by (simp add: get_scores_def recent_three)
  ultimately show ?thesis by auto
qed

text \<open>
  C8 as stated fails on a store of eleven score records: the response's \<open>total\<close> is 10,
  the count of the store is 11.
\<close>

theorem get_scores_total_counterexample:
  "get_scores eleven_scores = OK \<lparr>sc_scores = recent_scores eleven_scores, sc_total = 10\<rparr>
   \<and> length (image_scores eleven_scores) = 11"
  by (simp add: get_scores_eq eleven_scores_def)

section \<open>Composed configurations\<close>

lemma js_or_cases:
  "(\<not> truthy x \<longrightarrow> js_or x dv = dv) \<and> (truthy x \<longrightarrow> x = Some (js_or x dv))"
  by (cases x) (simp_all add: js_or_def)

lemma js_or_truthy: "truthy (Some dv) \<Longrightarrow> truthy (Some (js_or x dv))"
  using js_or_cases [of x dv] by (cases "truthy x") simp_all

lemma column_value_text_affinity:
  "truthy (Some v) \<Longrightarrow> column_value (text_affinity v) = Some v \<longleftrightarrow> is_string v"
  by (cases v) simp_all

lemma show_nat_123: "show_nat 123 = ''123''"
  by (simp add: show_nat.simps digit_def)

lemma generate_json_example:
  "generate_json sample_stringify config_body ''cfg-1'' 1000 ''1970-01-01T00:00:01.000Z'' empty_db
     = (OK config_response1, empty_db\<lparr>json_configs := [config_row1]\<rparr>)"
  by (simp add: generate_json_def config_body_def dflt_def js_or_def insert_config_def Let_def
      empty_db_def config_response1_def config_row1_def config1_def)

lemma generate_json_number_example:
  "generate_json sample_stringify number_body ''cfg-1'' 1000 ''1970-01-01T00:00:01.000Z'' empty_db
     = (OK number_response, empty_db\<lparr>json_configs := [number_row]\<rparr>)"
  by (simp add: generate_json_def number_body_def dflt_def js_or_def insert_config_def Let_def
      empty_db_def number_response_def number_row_def number_config_def show_int_def
      show_nat_123)

lemma sample_stringify_config1:
  "sample_stringify config1 = ''{\"character\":\"Ada\",\"environment\":\"Forest\",\"lighting\":\"Dusk\",\"camera\":\"Standard\",\"style\":\"Cinematic\",\"negativePrompt\":\"deformed, blurry, low quality\"}''"
  by (simp add: config1_def quote_def)

lemma sample_stringify_number_config:
  "sample_stringify number_config = ''{\"character\":123,\"environment\":\"Forest\",\"lighting\":\"Dusk\",\"camera\":\"Standard\",\"style\":\"Cinematic\",\"negativePrompt\":\"deformed, blurry, low quality\"}''"
  by (simp add: number_config_def quote_def show_int_def show_nat_123)

lemma sample_parse_config1: "sample_parse (sample_stringify config1) = Some config1"
  by (simp add: sample_parse_def)

lemma sample_parse_number_config:
  "sample_parse (sample_stringify number_config) = Some number_config"
  unfolding sample_parse_def sample_stringify_config1 sample_stringify_number_config
  by (simp add: config1_def number_config_def)

lemma generate_json_success:
  assumes "b ''character'' = Some c" "b ''environment'' = Some e" "b ''lighting'' = Some l"
      and "truthy (Some c)" "truthy (Some e)" "truthy (Some l)"
      and "configId \<notin> set (map jc_id (json_configs d))"
  shows "generate_json stringify b configId now isoNow d =
     (OK \<lparr>cr_id = configId,
          cr_jsonConfig = JObj [(''character'', c), (''environment'', e), (''lighting'', l),
            (''camera'', js_or (b ''camera'') (JStr ''Standard'')),
            (''style'', js_or (b ''style'') (JStr ''Cinematic'')),
            (''negativePrompt'', js_or (b ''negativePrompt'') (JStr ''deformed, blurry, low quality''))],
          cr_createdAt = isoNow,
          cr_message = check_mark @ '' JSON Config generated successfully''\<rparr>,
      d\<lparr>json_configs := json_configs d @
        [\<lparr>jc_id = configId, jc_character = text_affinity c, jc_environment = text_affinity e,
          jc_lighting = text_affinity l,
          jc_camera = text_affinity (js_or (b ''camera'') (JStr ''Standard'')),
          jc_style = text_affinity (js_or (b ''style'') (JStr ''Cinematic'')),
          jc_negativePrompt = text_affinity
            (js_or (b ''negativePrompt'') (JStr ''deformed, blurry, low quality'')),
          jc_configJson = stringify (JObj [(''character'', c), (''environment'', e),
            (''lighting'', l),
            (''camera'', js_or (b ''camera'') (JStr ''Standard'')),
            (''style'', js_or (b ''style'') (JStr ''Cinematic'')),
            (''negativePrompt'', js_or (b ''negativePrompt'') (JStr ''deformed, blurry, low quality''))]),
          jc_createdAt = now\<rparr>]\<rparr>)"
  using assms by (simp add: generate_json_def insert_config_def dflt_def Let_def)

lemma generate_json_OK_D:
  assumes "generate_json stringify b configId now isoNow d = (OK resp, d')"
  shows "truthy (b ''character'') \<and> truthy (b ''environment'') \<and> truthy (b ''lighting'')
       \<and> configId \<notin> set (map jc_id (json_configs d))"
proof (rule ccontr)
  assume n: "\<not> ?thesis"
  show False
  proof (cases "truthy (b ''character'') \<and> truthy (b ''environment'') \<and> truthy (b ''lighting'')")
    case False
    then have "generate_json stringify b configId now isoNow d
      = (Fail 400 ''character, environment, and lighting are required'', d)"
      by (simp add: generate_json_def)
    with assms show False by simp
  next
    case True
    with n have "configId \<in> set (map jc_id (json_configs d))" by simp
    with True have "fst (generate_json stringify b configId now isoNow d)
      = Fail 500 (message (SQLITE_CONSTRAINT ''json_configs''))"
      by (simp add: generate_json_def insert_config_def Let_def del: message.simps)
    with assms show False by simp
  qed
qed

text \<open>
  C4, as the code has it. A successful composition appends one row. The composed object has
  the request's three required fields and, for each optional field, the request's value
  when that is truthy and the fixed default otherwise, so an omitted \<open>camera\<close>, \<open>style\<close> or
  \<open>negativePrompt\<close> becomes "Standard", "Cinematic" or "deformed, blurry, low quality". The
  row's \<open>configJson\<close> is the serialisation of that object, so every reader that inverts the
  serialiser on it returns the object; the six TEXT columns of the row hold what SQLite
  stores for the object's six fields. The parsed \<open>configJson\<close> equals the structured fields
  of the row exactly when all six fields are strings: a field that is not a string is
  stored as text and no longer equals the parsed value.
\<close>

theorem generate_json_roundtrip:
  assumes "generate_json stringify b configId now isoNow d = (OK resp, d')"
  shows "\<exists>row c e l cam sty neg.
         json_configs d' = json_configs d @ [row]
       \<and> b ''character'' = Some c \<and> b ''environment'' = Some e \<and> b ''lighting'' = Some l
       \<and> cam = js_or (b ''camera'') (JStr ''Standard'')
       \<and> sty = js_or (b ''style'') (JStr ''Cinematic'')
       \<and> neg = js_or (b ''negativePrompt'') (JStr ''deformed, blurry, low quality'')
       \<and> (b ''camera'' = None \<longrightarrow> cam = JStr ''Standard'')
       \<and> (b ''style'' = None \<longrightarrow> sty = JStr ''Cinematic'')
       \<and> (b ''negativePrompt'' = None \<longrightarrow> neg = JStr ''deformed, blurry, low quality'')
       \<and> (truthy (b ''camera'') \<longrightarrow> b ''camera'' = Some cam)
       \<and> (truthy (b ''style'') \<longrightarrow> b ''style'' = Some sty)
       \<and> (truthy (b ''negativePrompt'') \<longrightarrow> b ''negativePrompt'' = Some neg)
       \<and> cr_jsonConfig resp = JObj
            [(''character'', c), (''environment'', e), (''lighting'', l), (''camera'', cam),
             (''style'', sty), (''negativePrompt'', neg)]
       \<and> jc_configJson row = stringify (cr_jsonConfig resp)
       \<and> jc_character row = text_affinity c \<and> jc_environment row = text_affinity e
       \<and> jc_lighting row = text_affinity l \<and> jc_camera row = text_affinity cam
       \<and> jc_style row = text_affinity sty \<and> jc_negativePrompt row = text_affinity neg
       \<and> (parsed_fields (cr_jsonConfig resp) = structured_fields row \<longleftrightarrow>
            is_string c \<and> is_string e \<and> is_string l \<and> is_string cam \<and> is_string sty
            \<and> is_string neg)
       \<and> (\<forall>parse. parse (stringify (cr_jsonConfig resp)) = Some (cr_jsonConfig resp) \<longrightarrow>
            (\<exists>parsed. parse (jc_configJson row) = Some parsed
               \<and> parsed = cr_jsonConfig resp
               \<and> (parsed_fields parsed = structured_fields row \<longleftrightarrow>
                    is_string c \<and> is_string e \<and> is_string l \<and> is_string cam \<and> is_string sty
                    \<and> is_string neg)))"
proof -
  define cam where "cam = js_or (b ''camera'') (JStr ''Standard'')"
  define sty where "sty = js_or (b ''style'') (JStr ''Cinematic'')"
  define neg where "neg = js_or (b ''negativePrompt'') (JStr ''deformed, blurry, low quality'')"
  from generate_json_OK_D [OF assms]
  have req: "truthy (b ''character'')" "truthy (b ''environment'')" "truthy (b ''lighting'')"
    and fresh: "configId \<notin> set (map jc_id (json_configs d))"
    by simp_all
  from truthy_Some [OF req(1)] obtain c where c: "b ''character'' = Some c" ..
  from truthy_Some [OF req(2)] obtain e where e: "b ''environment'' = Some e" ..
  from truthy_Some [OF req(3)] obtain l where l: "b ''lighting'' = Some l" ..
  note cel = c e l
  define obj where "obj = JObj [(''character'', c), (''environment'', e), (''lighting'', l),
    (''camera'', cam), (''style'', sty), (''negativePrompt'', neg)]"
  define row where "row = \<lparr>jc_id = configId, jc_character = text_affinity c,
    jc_environment = text_affinity e, jc_lighting = text_affinity l,
    jc_camera = text_affinity cam, jc_style = text_affinity sty,
    jc_negativePrompt = text_affinity neg, jc_configJson = stringify obj, jc_createdAt = now\<rparr>"
  from req cel have tr: "truthy (Some c)" "truthy (Some e)" "truthy (Some l)" by simp_all
  from assms generate_json_success [where b = b and stringify = stringify and now = now
      and isoNow = isoNow, OF cel tr fresh]
  have resp: "cr_jsonConfig resp = obj" and d': "json_configs d' = json_configs d @ [row]"
    unfolding obj_def row_def cam_def sty_def neg_def
    by auto
  have opt: "b ''camera'' = None \<longrightarrow> cam = JStr ''Standard''"
      "b ''style'' = None \<longrightarrow> sty = JStr ''Cinematic''"
      "b ''negativePrompt'' = None \<longrightarrow> neg = JStr ''deformed, blurry, low quality''"
      "truthy (b ''camera'') \<longrightarrow> b ''camera'' = Some cam"
      "truthy (b ''style'') \<longrightarrow> b ''style'' = Some sty"
      "truthy (b ''negativePrompt'') \<longrightarrow> b ''negativePrompt'' = Some neg"
    unfolding cam_def sty_def neg_def
    using js_or_cases [of "b ''camera''" "JStr ''Standard''"]
      js_or_cases [of "b ''style''" "JStr ''Cinematic''"]
      js_or_cases [of "b ''negativePrompt''" "JStr ''deformed, blurry, low quality''"]
    by auto
  have tro: "truthy (Some cam)" "truthy (Some sty)" "truthy (Some neg)"
    unfolding cam_def sty_def neg_def by (rule js_or_truthy, simp)+
  have cols: "jc_character row = text_affinity c" "jc_environment row = text_affinity e"
      "jc_lighting row = text_affinity l" "jc_camera row = text_affinity cam"
      "jc_style row = text_affinity sty" "jc_negativePrompt row = text_affinity neg"
    by (simp_all add: row_def)
  have ser: "jc_configJson row = stringify (cr_jsonConfig resp)"
    unfolding resp by (simp add: row_def)
  have key: "cr_jsonConfig resp = JObj
            [(''character'', c), (''environment'', e), (''lighting'', l), (''camera'', cam),
             (''style'', sty), (''negativePrompt'', neg)]"
    unfolding resp obj_def ..
  have same: "parsed_fields (cr_jsonConfig resp) = structured_fields row \<longleftrightarrow>
      is_string c \<and> is_string e \<and> is_string l \<and> is_string cam \<and> is_string sty \<and> is_string neg"
    unfolding key structured_fields_def cols
    using column_value_text_affinity [OF tr(1)] column_value_text_affinity [OF tr(2)]
      column_value_text_affinity [OF tr(3)] column_value_text_affinity [OF tro(1)]
      column_value_text_affinity [OF tro(2)] column_value_text_affinity [OF tro(3)]
    by (simp add: eq_commute [of "Some _"])
  have rdb: "\<forall>parse. parse (stringify (cr_jsonConfig resp)) = Some (cr_jsonConfig resp) \<longrightarrow>
            (\<exists>parsed. parse (jc_configJson row) = Some parsed
               \<and> parsed = cr_jsonConfig resp
               \<and> (parsed_fields parsed = structured_fields row \<longleftrightarrow>
                    is_string c \<and> is_string e \<and> is_string l \<and> is_string cam \<and> is_string sty
                    \<and> is_string neg))"
    unfolding ser using same by simp
  have defs: "cam = js_or (b ''camera'') (JStr ''Standard'')"
      "sty = js_or (b ''style'') (JStr ''Cinematic'')"
      "neg = js_or (b ''negativePrompt'') (JStr ''deformed, blurry, low quality'')"
    by (rule cam_def sty_def neg_def)+
  from d' cel defs opt key ser cols same rdb show ?thesis
    by (intro exI [of _ row] exI [of _ c] exI [of _ e] exI [of _ l] exI [of _ cam]
        exI [of _ sty] exI [of _ neg] conjI)
qed

theorem generate_json_roundtrip_witness:
  "generate_json sample_stringify config_body ''cfg-1'' 1000 ''1970-01-01T00:00:01.000Z'' empty_db
     = (OK config_response1, empty_db\<lparr>json_configs := [config_row1]\<rparr>)
   \<and> config_body ''camera'' = None
   \<and> jc_camera config_row1 = Text ''Standard''
   \<and> jc_style config_row1 = Text ''Cinematic''
   \<and> jc_negativePrompt config_row1 = Text ''deformed, blurry, low quality''
   \<and> sample_parse (sample_stringify (cr_jsonConfig config_response1))
       = Some (cr_jsonConfig config_response1)
   \<and> sample_parse (jc_configJson config_row1) = Some config1
   \<and> parsed_fields config1 = structured_fields config_row1"
proof -
  have p: "sample_parse (sample_stringify (cr_jsonConfig config_response1))
       = Some (cr_jsonConfig config_response1)"
    by (simp add: sample_parse_def config_response1_def)
  from generate_json_roundtrip [OF generate_json_example]
  obtain row c e l cam sty neg where
      r: "json_configs (empty_db\<lparr>json_configs := [config_row1]\<rparr>) = json_configs empty_db @ [row]"
    and q: "\<forall>parse. parse (sample_stringify (cr_jsonConfig config_response1))
              = Some (cr_jsonConfig config_response1) \<longrightarrow>
            (\<exists>parsed. parse (jc_configJson row) = Some parsed
               \<and> parsed = cr_jsonConfig config_response1
               \<and> (parsed_fields parsed = structured_fields row \<longleftrightarrow>
                    is_string c \<and> is_string e \<and> is_string l \<and> is_string cam \<and> is_string sty
                    \<and> is_string neg))"
    and k: "cr_jsonConfig config_response1 = JObj
            [(''character'', c), (''environment'', e), (''lighting'', l), (''camera'', cam),
             (''style'', sty), (''negativePrompt'', neg)]"
    by (elim exE conjE) (rule that; assumption)
  from r have row: "row = config_row1" by (simp add: empty_db_def)
  from k have strs: "is_string c \<and> is_string e \<and> is_string l \<and> is_string cam \<and> is_string sty
      \<and> is_string neg"
    by (auto simp: config_response1_def config1_def)
  from q [rule_format, of sample_parse, OF p] strs
  have "sample_parse (jc_configJson config_row1) = Some (cr_jsonConfig config_response1)"
    and "parsed_fields (cr_jsonConfig config_response1) = structured_fields config_row1"
    unfolding row by auto
  moreover have cfg: "cr_jsonConfig config_response1 = config1"
    by (simp add: config_response1_def)
  moreover have "config_body ''camera'' = None" by (simp add: config_body_def)
  moreover have "jc_camera config_row1 = Text ''Standard''"
      "jc_style config_row1 = Text ''Cinematic''"
      "jc_negativePrompt config_row1 = Text ''deformed, blurry, low quality''"
    by (simp_all add: config_row1_def)
  ultimately show ?thesis using generate_json_example p by simp
qed

text \<open>
  C4 as stated fails for a field that is not a string: with the number 123 as character
  the call succeeds, the parsed \<open>configJson\<close> has the number 123 and the \<open>character\<close>
  column of the same row holds the text '123'.
\<close>

theorem generate_json_roundtrip_counterexample:
  "generate_json sample_stringify number_body ''cfg-1'' 1000 ''1970-01-01T00:00:01.000Z'' empty_db
     = (OK number_response, empty_db\<lparr>json_configs := [number_row]\<rparr>)
   \<and> sample_parse (jc_configJson number_row) = Some number_config
   \<and> parsed_fields number_config \<noteq> structured_fields number_row
   \<and> map_of (parsed_fields number_config) ''character'' = Some (Some (JNum 123))
   \<and> map_of (structured_fields number_row) ''character'' = Some (Some (JStr ''123''))"
  using generate_json_number_example sample_parse_number_config
  by (simp add: number_row_def number_config_def structured_fields_def)

end
